theory Spec2Isabelle
  imports Complex_Main
begin

section \<open>Python values used by the scripts\<close>

text \<open>
  A Python \<open>str\<close> is modelled as a \<open>string\<close>; one \<open>char\<close> stands for one code point
  below 256. \<open>Optional[str]\<close> is \<open>string option\<close>. The test \<open>if x:\<close> on such a value
  holds for a non-empty string only.
\<close>

abbreviation LF :: char where "LF \<equiv> CHR 0x0A"
abbreviation CR :: char where "CR \<equiv> CHR 0x0D"

fun truthy :: "string option \<Rightarrow> bool" where
  "truthy None = False"
| "truthy (Some s) = (s \<noteq> [])"

text \<open>\<open>s.startswith(p)\<close>\<close>

fun startswith :: "string \<Rightarrow> string \<Rightarrow> bool" where
  "startswith s [] = True"
| "startswith [] (p # ps) = False"
| "startswith (c # cs) (p # ps) = (c = p \<and> startswith cs ps)"

text \<open>\<open>sub in s\<close>\<close>

fun contains :: "string \<Rightarrow> string \<Rightarrow> bool" where
  "contains [] sub = (sub = [])"
| "contains (c # cs) sub = (startswith (c # cs) sub \<or> contains cs sub)"

text \<open>\<open>s.endswith("\n")\<close>\<close>

definition endswith_LF :: "string \<Rightarrow> bool" where
  "endswith_LF s = (s \<noteq> [] \<and> last s = LF)"

text \<open>\<open>str.isspace\<close> on one code point below 256, and \<open>s.strip()\<close>.\<close>

definition isspace :: "char \<Rightarrow> bool" where
  "isspace c = (c \<in> {CHR 0x09, LF, CHR 0x0B, CHR 0x0C, CR, CHR 0x1C, CHR 0x1D, CHR 0x1E,
                      CHR 0x1F, CHR 0x20, CHR 0x85, CHR 0xA0})"

definition strip :: "string \<Rightarrow> string" where
  "strip s = rev (dropWhile isspace (rev (dropWhile isspace s)))"

text \<open>
  \<open>s.splitlines()\<close>: the line boundaries below 256 are LF, CR, CR LF, VT, FF, FS, GS, RS
  and NEL; the boundaries are dropped and a trailing boundary opens no further line.
\<close>

definition linebreak :: "char \<Rightarrow> bool" where
  "linebreak c = (c \<in> {LF, CR, CHR 0x0B, CHR 0x0C, CHR 0x1C, CHR 0x1D, CHR 0x1E, CHR 0x85})"

fun splitlines_from :: "string \<Rightarrow> string \<Rightarrow> string list" where
  "splitlines_from cur [] = (if cur = [] then [] else [cur])"
| "splitlines_from cur [c] = (if linebreak c then [cur] else [cur @ [c]])"
| "splitlines_from cur (c # d # cs) =
     (if c = CR \<and> d = LF then cur # splitlines_from [] cs
      else if linebreak c then cur # splitlines_from [] (d # cs)
      else splitlines_from (cur @ [c]) (d # cs))"

definition splitlines :: "string \<Rightarrow> string list" where
  "splitlines s = splitlines_from [] s"

text \<open>\<open>"\n".join(lines)\<close>\<close>

fun join_LF :: "string list \<Rightarrow> string" where
  "join_LF [] = []"
| "join_LF [l] = l"
| "join_LF (l # m # ls) = l @ LF # join_LF (m # ls)"

text \<open>\<open>text.split("\n")\<close>, the lines that \<open>^\<close> and \<open>$\<close> of a MULTILINE pattern delimit.\<close>

fun split_LF_from :: "string \<Rightarrow> string \<Rightarrow> string list" where
  "split_LF_from cur [] = [cur]"
| "split_LF_from cur (c # cs) =
     (if c = LF then cur # split_LF_from [] cs else split_LF_from (cur @ [c]) cs)"

definition split_LF :: "string \<Rightarrow> string list" where
  "split_LF s = split_LF_from [] s"

text \<open>\<open>str(n)\<close> for a status code.\<close>

fun digit_char :: "nat \<Rightarrow> char" where
  "digit_char n = char_of (48 + n mod 10)"

fun str_nat_fuel :: "nat \<Rightarrow> nat \<Rightarrow> string" where
  "str_nat_fuel 0 n = [digit_char n]"
| "str_nat_fuel (Suc k) n =
     (if n < 10 then [digit_char n] else str_nat_fuel k (n div 10) @ [digit_char n])"

definition str_nat :: "nat \<Rightarrow> string" where
  "str_nat n = str_nat_fuel n n"

definition str_int :: "int \<Rightarrow> string" where
  "str_int i = (if i < 0 then CHR ''-'' # str_nat (nat (- i)) else str_nat (nat i))"

text \<open>\<open>str(x)\<close> and \<open>f"{x}"\<close> for an optional string: \<open>None\<close> prints as the word None.\<close>

fun str_opt :: "string option \<Rightarrow> string" where
  "str_opt None = ''None''"
| "str_opt (Some s) = s"

section \<open>The credential file\<close>

text \<open>
  The file system maps a path to a file. A file that exists but cannot be read as UTF-8
  text (a directory, a permission error, undecodable bytes) is \<open>Unreadable\<close>: every read
  of it raises. Text is held as written; reading in text mode translates CR LF and CR to
  LF (universal newlines), writing on a POSIX system stores LF as it is.
\<close>

datatype file_state = Absent | Text string | Unreadable

type_synonym filesystem = "string \<Rightarrow> file_state"

datatype fs_op = OpenTrunc string | Write string string

fun universal_newlines :: "string \<Rightarrow> string" where
  "universal_newlines [] = []"
| "universal_newlines [c] = (if c = CR then [LF] else [c])"
| "universal_newlines (c # d # cs) =
     (if c = CR \<and> d = LF then LF # universal_newlines cs
      else if c = CR then LF # universal_newlines (d # cs)
      else c # universal_newlines (d # cs))"

fun run_op :: "fs_op \<Rightarrow> filesystem \<Rightarrow> filesystem" where
  "run_op (OpenTrunc p) fs = fs(p := Text [])"
| "run_op (Write p s) fs = fs(p := (case fs p of Text t \<Rightarrow> Text (t @ s) | _ \<Rightarrow> Text s))"

fun run_ops :: "fs_op list \<Rightarrow> filesystem \<Rightarrow> filesystem" where
  "run_ops [] fs = fs"
| "run_ops (op # ops) fs = run_ops ops (run_op op fs)"

text \<open>\<open>Path.write_text(data)\<close> and \<open>open(path, "w").write(data)\<close>: the file is opened for
  writing, which truncates it, and then the data is written.\<close>

definition write_text :: "string \<Rightarrow> string \<Rightarrow> fs_op list" where
  "write_text p s = [OpenTrunc p, Write p s]"

section \<open>Exceptions, events and the world\<close>

text \<open>
  The exceptions the scripts raise or receive. \<open>SystemExit\<close> and \<open>KeyboardInterrupt\<close> derive
  from \<open>BaseException\<close> only, so \<open>except Exception\<close> lets them through.
\<close>

datatype exit_arg = ExitMsg string | ExitInt nat

datatype exn =
    ClientResponseError nat
  | ClientConnectionError
  | ContentTypeError
  | KeyError string
  | TypeError
  | AttributeError
  | OSError
  | ReError
  | SystemExit exit_arg
  | KeyboardInterrupt

fun is_Exception :: "exn \<Rightarrow> bool" where
  "is_Exception (SystemExit a) = False"
| "is_Exception KeyboardInterrupt = False"
| "is_Exception e = True"

text \<open>The body of an action request: \<open>{"data": {"type": t, "attributes": {...}}}\<close>.\<close>

datatype attr_val = IntV int | StrV string | ObjV "(string \<times> attr_val) list"

record payload =
  ptype :: string
  attributes :: "(string \<times> attr_val) list option"

datatype request =
    TokenPost string string string
  | MowersGet "string option" string
  | ActionPost string string string payload

datatype field_value = FBool bool | FInt int | FFloat real | FStr string

record point =
  pmeasurement :: string
  ptags :: "(string \<times> string option) list"
  pfields :: "(string \<times> field_value) list"
  ptime :: real

datatype level = ERROR | WARNING | INFO | DEBUG | TRACE

datatype event =
    Request request
  | Stdout string
  | Stderr string
  | Log level string
  | Fs fs_op
  | InfluxWrite string point
  | Sleep int

text \<open>
  What the servers answer. The token endpoint's JSON has \<open>access_token\<close>, an optional
  \<open>refresh_token\<close> and an optional \<open>expires_in\<close>. A key of that object is missing, or
  holds null, or holds a value: \<open>d.get(k)\<close> gives \<open>None\<close> for a missing key and for null,
  \<open>d[k]\<close> raises \<open>KeyError\<close> for a missing key and gives \<open>None\<close> for null, and
  \<open>int(d.get(k, 300))\<close> is 300 for a missing key and raises \<open>TypeError\<close> for null.
  The device list has a \<open>data\<close> array; the scripts read its items with \<open>get\<close> only, so
  there a field that is missing or null is \<open>None\<close>.
\<close>

datatype 'a json_field = Missing | Null | Val 'a

fun json_get :: "'a json_field \<Rightarrow> 'a option" where
  "json_get Missing = None"
| "json_get Null = None"
| "json_get (Val v) = Some v"

fun json_index :: "string \<Rightarrow> 'a json_field \<Rightarrow> exn + 'a option" where
  "json_index k Missing = Inl (KeyError k)"
| "json_index k Null = Inr None"
| "json_index k (Val v) = Inr (Some v)"

fun int_or_300 :: "int json_field \<Rightarrow> exn + int" where
  "int_or_300 Missing = Inr 300"
| "int_or_300 Null = Inl TypeError"
| "int_or_300 (Val n) = Inr n"

record token_json =
  tj_access_token :: "string json_field"
  tj_refresh_token :: "string json_field"
  tj_expires_in :: "int json_field"

record mower =
  m_id :: "string option"
  m_name :: "string option"
  m_headlights :: "bool option"
  m_battery :: "real option"
  m_activity :: "string option"
  m_state :: "string option"
  m_mode :: "string option"
  m_positions :: "(real option \<times> real option) list"
  m_settings_height :: "real option"
  m_cutting_height :: "real option"
  m_connected :: "bool option"

datatype body = TokenBody token_json | MowersBody "mower list option" | OtherBody

datatype reply = NoReply | Interrupted | Http nat string body

text \<open>
  The world a script runs in: the file system, everything it has done so far in order,
  the answers the servers will give to its next requests, and the clock.
\<close>

record world =
  fs :: filesystem
  trace :: "event list"
  replies :: "reply list"
  now :: real

definition emit :: "event \<Rightarrow> world \<Rightarrow> world" where
  "emit e w = w\<lparr>trace := trace w @ [e]\<rparr>"

definition do_fs_ops :: "fs_op list \<Rightarrow> world \<Rightarrow> world" where
  "do_fs_ops ops w = w\<lparr>fs := run_ops ops (fs w), trace := trace w @ map Fs ops\<rparr>"

text \<open>One HTTP round trip: the request goes out and the next answer comes back; with no
  answer left the connection fails.\<close>

definition send :: "request \<Rightarrow> world \<Rightarrow> reply \<times> world" where
  "send rq w =
     (case replies w of
        [] \<Rightarrow> (NoReply, emit (Request rq) w)
      | r # rs \<Rightarrow> (r, (emit (Request rq) w)\<lparr>replies := rs\<rparr>))"

section \<open>Persisting a rotated refresh token\<close>

definition RT_KEY :: string where
  "RT_KEY = ''HUSQ_REFRESH_TOKEN=''"

subsection \<open>main.py: \<open>_persist_refresh_token_to_env\<close>\<close>

text \<open>The \<open>for ... break ... else\<close> loop: the first line that, stripped, starts with the key
  is replaced; \<open>None\<close> when the loop ends without a break.\<close>

fun replace_first_rt :: "string \<Rightarrow> string list \<Rightarrow> string list option" where
  "replace_first_rt entry [] = None"
| "replace_first_rt entry (l # ls) =
     (if startswith (strip l) RT_KEY then Some (entry # ls)
      else map_option ((#) l) (replace_first_rt entry ls))"

text \<open>The writes the function issues, or the exception its \<open>try\<close> block raises.\<close>

definition persist_refresh_token_to_env_writes ::
    "string \<Rightarrow> string \<Rightarrow> filesystem \<Rightarrow> exn + fs_op list" where
  "persist_refresh_token_to_env_writes new_rt env_path f =
     (case f env_path of
        Absent \<Rightarrow> Inr (write_text env_path (RT_KEY @ new_rt @ [LF]))
      | Unreadable \<Rightarrow> Inl OSError
      | Text raw \<Rightarrow>
          (let lines = splitlines (universal_newlines raw);
               entry = RT_KEY @ new_rt;
               lines' = (case replace_first_rt entry lines of
                           Some ls \<Rightarrow> ls
                         | None \<Rightarrow> lines @ [entry])
           in Inr (write_text env_path (join_LF lines' @ [LF]))))"

definition persist_refresh_token_to_env :: "string \<Rightarrow> string \<Rightarrow> world \<Rightarrow> world" where
  "persist_refresh_token_to_env new_rt env_path w =
     (case persist_refresh_token_to_env_writes new_rt env_path (fs w) of
        Inr ops \<Rightarrow> do_fs_ops ops w
      | Inl e \<Rightarrow> emit (Log WARNING ''Could not persist rotated refresh token to .env: %s'') w)"

subsection \<open>amc\_action.py and automower\_ctl.py: \<open>_persist_rotated_rt\<close>\<close>

text \<open>
  \<open>re.sub(r"^HUSQ_REFRESH_TOKEN=.*$", repl, text, flags=re.MULTILINE)\<close>. The pattern has
  no group; it matches, from the start of a line (as \<open>text.split("\n")\<close> delimits lines),
  a line that starts with the key, up to the end of that line. The replacement is a
  template (CPython 3.12): a backslash opens an escape, \<open>\g<0>\<close> stands for the
  matched line, any other group reference and any unknown letter escape is an error, and
  the template is compiled before the search, so an error is raised whatever the text.
\<close>

definition backslash :: char where
  "backslash = CHR 0x5C"

definition octdigit :: "char \<Rightarrow> bool" where
  "octdigit c = (48 \<le> (of_char c :: nat) \<and> (of_char c :: nat) \<le> 55)"

definition digit :: "char \<Rightarrow> bool" where
  "digit c = (48 \<le> (of_char c :: nat) \<and> (of_char c :: nat) \<le> 57)"

definition ascii_letter :: "char \<Rightarrow> bool" where
  "ascii_letter c =
     ((65 \<le> (of_char c :: nat) \<and> (of_char c :: nat) \<le> 90) \<or>
      (97 \<le> (of_char c :: nat) \<and> (of_char c :: nat) \<le> 122))"

definition octval :: "char \<Rightarrow> nat" where
  "octval c = of_char c - 48"

definition escape_char :: "char \<Rightarrow> char option" where
  "escape_char e =
     (if e = CHR ''a'' then Some (CHR 0x07)
      else if e = CHR ''b'' then Some (CHR 0x08)
      else if e = CHR ''f'' then Some (CHR 0x0C)
      else if e = CHR ''n'' then Some LF
      else if e = CHR ''r'' then Some CR
      else if e = CHR ''t'' then Some (CHR 0x09)
      else if e = CHR ''v'' then Some (CHR 0x0B)
      else if e = backslash then Some backslash
      else None)"

function expand_template :: "string \<Rightarrow> string \<Rightarrow> string option" where
  "expand_template [] m = Some []"
| "expand_template [c] m = (if c = backslash then None else Some [c])"
| "expand_template (c # e # cs) m =
     (if c \<noteq> backslash then map_option ((#) c) (expand_template (e # cs) m)
      else if e = CHR ''g'' then
        (case cs of
           [] \<Rightarrow> None
         | b # rest \<Rightarrow>
             (let name = takeWhile (\<lambda>x. x \<noteq> CHR ''>'') rest in
              if b = CHR ''<'' \<and> length name < length rest \<and> name \<noteq> [] \<and>
                 list_all (\<lambda>x. x = CHR ''0'') name
              then map_option ((@) m) (expand_template (drop (Suc (length name)) rest) m)
              else None))
      else if e = CHR ''0'' then
        (case cs of
           [] \<Rightarrow> Some [CHR 0x00]
         | [d1] \<Rightarrow>
             (if octdigit d1 then Some [char_of (octval d1)]
              else map_option ((#) (CHR 0x00)) (expand_template [d1] m))
         | d1 # d2 # rest \<Rightarrow>
             (if octdigit d1 \<and> octdigit d2
              then map_option ((#) (char_of (8 * octval d1 + octval d2)))
                     (expand_template rest m)
              else if octdigit d1
              then map_option ((#) (char_of (octval d1))) (expand_template (d2 # rest) m)
              else map_option ((#) (CHR 0x00)) (expand_template (d1 # d2 # rest) m)))
      else if digit e then
        (case cs of
           d1 # d2 # rest \<Rightarrow>
             (if octdigit e \<and> octdigit d1 \<and> octdigit d2 \<and>
                 64 * octval e + 8 * octval d1 + octval d2 \<le> 255
              then map_option ((#) (char_of (64 * octval e + 8 * octval d1 + octval d2)))
                     (expand_template rest m)
              else None)
         | _ \<Rightarrow> None)
      else
        (case escape_char e of
           Some x \<Rightarrow> map_option ((#) x) (expand_template cs m)
         | None \<Rightarrow>
             (if ascii_letter e then None
              else map_option (\<lambda>r. c # e # r) (expand_template cs m))))"
  by pat_completeness auto
termination
  by (relation "measure (\<lambda>(t, m). length t)") auto

fun sub_lines :: "string \<Rightarrow> string list \<Rightarrow> string list option" where
  "sub_lines repl [] = Some []"
| "sub_lines repl (l # ls) =
     (case (if startswith l RT_KEY then expand_template repl l else Some l) of
        None \<Rightarrow> None
      | Some l' \<Rightarrow> map_option ((#) l') (sub_lines repl ls))"

definition re_sub_rt :: "string \<Rightarrow> string \<Rightarrow> string option" where
  "re_sub_rt repl text =
     (case expand_template repl [] of
        None \<Rightarrow> None
      | Some _ \<Rightarrow> map_option join_LF (sub_lines repl (split_LF text)))"

definition persist_rotated_rt_writes :: "string \<Rightarrow> string \<Rightarrow> filesystem \<Rightarrow> exn + fs_op list" where
  "persist_rotated_rt_writes new_rt env_path f =
     (case (case f env_path of
              Absent \<Rightarrow> Inr []
            | Unreadable \<Rightarrow> Inl OSError
            | Text raw \<Rightarrow> Inr (universal_newlines raw)) of
        Inl e \<Rightarrow> Inl e
      | Inr text \<Rightarrow>
          (if contains text RT_KEY then
             (case re_sub_rt (RT_KEY @ new_rt) text of
                None \<Rightarrow> Inl ReError
              | Some text' \<Rightarrow> Inr (write_text env_path text'))
           else
             (let text1 = (if text \<noteq> [] \<and> \<not> endswith_LF text then text @ [LF] else text)
              in Inr (write_text env_path (text1 @ RT_KEY @ new_rt @ [LF])))))"

definition persist_rotated_rt :: "string \<Rightarrow> string \<Rightarrow> world \<Rightarrow> world" where
  "persist_rotated_rt new_rt env_path w =
     (case persist_rotated_rt_writes new_rt env_path (fs w) of
        Inr ops \<Rightarrow> emit (Stdout ''Note: refresh token rotated and saved to .env'') (do_fs_ops ops w)
      | Inl e \<Rightarrow> emit (Stderr ''Warning: couldn't persist rotated token: '') w)"

section \<open>The token manager\<close>

subsection \<open>main.py: \<open>StaticAuth\<close>\<close>

record static_auth =
  client_id :: string
  client_secret :: string
  api_key :: string
  refresh_token :: string
  access_token :: "string option"
  expires_at :: real

definition StaticAuth :: "string \<Rightarrow> string \<Rightarrow> string \<Rightarrow> string \<Rightarrow> static_auth" where
  "StaticAuth cid csecret akey rt =
     \<lparr>client_id = cid, client_secret = csecret, api_key = akey, refresh_token = rt,
      access_token = None, expires_at = 0\<rparr>"

text \<open>
  \<open>async_get_access_token\<close> returns \<open>self._access_token\<close> or raises; the object and the
  world come back as the call left them. \<open>time.time()\<close> reads the world's clock.
\<close>

definition async_get_access_token ::
    "static_auth \<Rightarrow> world \<Rightarrow> (exn + string option) \<times> static_auth \<times> world" where
  "async_get_access_token self w =
     (let t = now w in
      if \<not> truthy (access_token self) \<or> t \<ge> expires_at self - 30 then
        (case send (TokenPost (refresh_token self) (client_id self) (client_secret self)) w of
           (NoReply, w1) \<Rightarrow> (Inl ClientConnectionError, self, w1)
         | (Interrupted, w1) \<Rightarrow> (Inl KeyboardInterrupt, self, w1)
         | (Http status txt b, w1) \<Rightarrow>
             if status \<ge> 400 then
               (Inl (ClientResponseError status), self,
                emit (Log ERROR ''Token refresh failed %s: %s'') w1)
             else
               (case b of
                  OtherBody \<Rightarrow> (Inl ContentTypeError, self, w1)
                | MowersBody d \<Rightarrow> (Inl (KeyError ''access_token''), self, w1)
                | TokenBody tok \<Rightarrow>
                    (case json_index ''access_token'' (tj_access_token tok) of
                       Inl e \<Rightarrow> (Inl e, self, w1)
                     | Inr acc \<Rightarrow>
                         (let self0 = self\<lparr>access_token := acc\<rparr> in
                          case int_or_300 (tj_expires_in tok) of
                            Inl e \<Rightarrow> (Inl e, self0, w1)
                          | Inr expires_in \<Rightarrow>
                              (let self1 = self0\<lparr>expires_at := t + real_of_int expires_in\<rparr>;
                                   w2 = emit (Log DEBUG ''Refreshed access token; expires_in=%ss'') w1;
                                   new_rt = json_get (tj_refresh_token tok)
                               in case (if truthy new_rt \<and> new_rt \<noteq> Some (refresh_token self1)
                                        then new_rt else None) of
                                    Some rt \<Rightarrow>
                                      (let self2 = self1\<lparr>refresh_token := rt\<rparr>;
                                           w3 = persist_refresh_token_to_env rt ''.env'' w2;
                                           w4 = emit (Log DEBUG ''Stored rotated refresh token.'') w3
                                       in (Inr (access_token self2), self2, w4))
                                  | None \<Rightarrow> (Inr (access_token self1), self1, w2))))))
      else (Inr (access_token self), self, w))"

subsection \<open>automower\_ctl.py: \<open>get_access_token\<close> and the start of \<open>main\<close>\<close>




section \<open>The device directory\<close>

abbreviation apostrophe :: char where "apostrophe \<equiv> CHR 0x27"

definition emits :: "event list \<Rightarrow> world \<Rightarrow> world" where
  "emits es w = w\<lparr>trace := trace w @ es\<rparr>"

text \<open>\<open>name or '(no-name)'\<close>\<close>

definition name_or_noname :: "mower \<Rightarrow> string" where
  "name_or_noname it = (case m_name it of None \<Rightarrow> ''(no-name)''
                        | Some n \<Rightarrow> if n = [] then ''(no-name)'' else n)"

subsection \<open>automower\_ctl.py: \<open>pick_mower\<close>\<close>

definition candidate_line :: "mower \<Rightarrow> string" where
  "candidate_line it = ''- '' @ name_or_noname it @ ''  ('' @ str_opt (m_id it) @ '')''"

definition pick_mower ::
    "mower list option \<Rightarrow> string option \<Rightarrow> string option \<Rightarrow> world \<Rightarrow> (exn + mower) \<times> world" where
  "pick_mower data mower_id mower_name w =
     (let items = (case data of None \<Rightarrow> [] | Some xs \<Rightarrow> xs) in
      if items = [] then
        (Inl (SystemExit (ExitMsg ''No mowers visible on this account.'')), w)
      else if truthy mower_id then
        (case find (\<lambda>it. m_id it = mower_id) items of
           Some it \<Rightarrow> (Inr it, w)
         | None \<Rightarrow>
             (Inl (SystemExit (ExitMsg (''Mower id '' @ [apostrophe] @ str_opt mower_id @
                                        [apostrophe] @ '' not found.''))), w))
      else if truthy mower_name then
        (case find (\<lambda>it. m_name it = mower_name) items of
           Some it \<Rightarrow> (Inr it, w)
         | None \<Rightarrow>
             (Inl (SystemExit (ExitMsg (''Mower name '' @ [apostrophe] @ str_opt mower_name @
                                        [apostrophe] @ '' not found.''))), w))
      else
        (case items of
           [it] \<Rightarrow> (Inr it, w)
         | _ \<Rightarrow>
             (Inl (SystemExit (ExitInt 2)),
              emits (Stderr ''Multiple mowers found; choose one with --mower-id or --mower-name:''
                     # map (\<lambda>it. Stderr (candidate_line it)) items) w)))"

subsection \<open>amc\_action.py: \<open>pick_mower\<close>, which returns the id\<close>

definition amc_candidate_line :: "mower \<Rightarrow> string" where
  "amc_candidate_line it = ''- '' @ name_or_noname it @ '' ('' @ str_opt (m_id it) @ '')''"

text \<open>\<open>it["id"]\<close>\<close>

definition item_id :: "mower \<Rightarrow> exn + string" where
  "item_id it = (case m_id it of None \<Rightarrow> Inl (KeyError ''id'') | Some i \<Rightarrow> Inr i)"

definition amc_pick_mower ::
    "mower list option \<Rightarrow> string option \<Rightarrow> string option \<Rightarrow> world \<Rightarrow> (exn + string) \<times> world" where
  "amc_pick_mower data mower_id mower_name w =
     (let items = (case data of None \<Rightarrow> [] | Some xs \<Rightarrow> xs) in
      if items = [] then
        (Inl (SystemExit (ExitMsg ''No mowers visible on this account.'')), w)
      else if truthy mower_id then
        (case find (\<lambda>it. m_id it = mower_id) items of
           Some it \<Rightarrow> (Inr (str_opt mower_id), w)
         | None \<Rightarrow>
             (Inl (SystemExit (ExitMsg (''Mower id '' @ [apostrophe] @ str_opt mower_id @
                                        [apostrophe] @ '' not found.''))), w))
      else if truthy mower_name then
        (case find (\<lambda>it. m_name it = mower_name) items of
           Some it \<Rightarrow> (item_id it, w)
         | None \<Rightarrow>
             (Inl (SystemExit (ExitMsg (''Mower name '' @ [apostrophe] @ str_opt mower_name @
                                        [apostrophe] @ '' not found.''))), w))
      else
        (case items of
           [it] \<Rightarrow> (item_id it, w)
         | _ \<Rightarrow>
             (Inl (SystemExit (ExitInt 2)),
              emits (Stderr ''Multiple mowers found; use --mower-id or --mower-name:''
                     # map (\<lambda>it. Stderr (amc_candidate_line it)) items) w)))"

text \<open>
  The handler under \<open>if __name__ == "__main__"\<close>, the same in both scripts: the status the
  process exits with when \<open>main\<close> raises. \<open>sys.exit\<close> of a string prints it and exits with
  1; an interrupt that nothing catches ends the interpreter with 130.
\<close>

fun exit_status :: "exn \<Rightarrow> nat" where
  "exit_status (SystemExit (ExitInt n)) = n"
| "exit_status (SystemExit (ExitMsg m)) = 1"
| "exit_status KeyboardInterrupt = 130"
| "exit_status e = 1"

section \<open>The action dispatcher\<close>

subsection \<open>automower\_ctl.py\<close>

definition post_action ::
    "string \<Rightarrow> string \<Rightarrow> string \<Rightarrow> payload \<Rightarrow> world \<Rightarrow> (exn + unit) \<times> world" where
  "post_action access akey mower_id pl w =
     (case send (ActionPost access akey mower_id pl) w of
        (NoReply, w1) \<Rightarrow> (Inl ClientConnectionError, w1)
      | (Interrupted, w1) \<Rightarrow> (Inl KeyboardInterrupt, w1)
      | (Http status txt b, w1) \<Rightarrow>
          if status \<ge> 400 then
            (Inl (ClientResponseError status),
             emit (Stderr (''ERROR: POST /v1/mowers/'' @ mower_id @ ''/actions '' @
                           str_nat status @ '': '' @ txt)) w1)
          else (Inr (), w1))"

definition action :: "string \<Rightarrow> payload" where
  "action t = \<lparr>ptype = t, attributes = None\<rparr>"

definition do_pause :: "string \<Rightarrow> string \<Rightarrow> string \<Rightarrow> world \<Rightarrow> (exn + unit) \<times> world" where
  "do_pause tok akey mower_id w =
     (case post_action tok akey mower_id (action ''Pause'') w of
        (Inl e, w1) \<Rightarrow> (Inl e, w1)
      | (Inr u, w1) \<Rightarrow> (Inr (), emit (Stdout ''OK: mower paused'') w1))"


definition park_payload :: "int option \<Rightarrow> bool \<Rightarrow> payload" where
  "park_payload duration until_next =
     (if until_next then action ''ParkUntilNextSchedule''
      else case duration of
             None \<Rightarrow> action ''ParkUntilFurtherNotice''
           | Some d \<Rightarrow> \<lparr>ptype = ''Park'', attributes = Some [(''duration'', IntV d)]\<rparr>)"

definition do_park ::
    "string \<Rightarrow> string \<Rightarrow> string \<Rightarrow> int option \<Rightarrow> bool \<Rightarrow> world \<Rightarrow> (exn + unit) \<times> world" where
  "do_park tok akey mower_id duration until_next w =
     (case post_action tok akey mower_id (park_payload duration until_next) w of
        (Inl e, w1) \<Rightarrow> (Inl e, w1)
      | (Inr u, w1) \<Rightarrow>
          (Inr (),
           emit (Stdout (if until_next then ''OK: mower parked until next schedule''
                         else case duration of
                                None \<Rightarrow> ''OK: mower parked (until further notice)''
                              | Some d \<Rightarrow> ''OK: mower parked for '' @ str_int d @ '' minutes'')) w1))"

text \<open>\<open>system.name or mower.get("id")\<close>\<close>

definition name_or_id :: "mower \<Rightarrow> string option" where
  "name_or_id m = (if truthy (m_name m) then m_name m else m_id m)"

definition do_set_headlight ::
    "string \<Rightarrow> string \<Rightarrow> mower \<Rightarrow> string \<Rightarrow> world \<Rightarrow> (exn + unit) \<times> world" where
  "do_set_headlight tok akey m md w =
     (if m_headlights m \<noteq> Some True then
        (Inr (),
         emit (Stderr (''Model has no headlights capability (headlights=False) for '' @
                       [apostrophe] @ str_opt (name_or_id m) @ [apostrophe] @ ''.'')) w)
      else
        (case post_action tok akey (str_opt (m_id m))
                \<lparr>ptype = ''settings'',
                 attributes = Some [(''headlight'', ObjV [(''mode'', StrV md)])]\<rparr> w of
           (Inl e, w1) \<Rightarrow> (Inl e, w1)
         | (Inr u, w1) \<Rightarrow> (Inr (), emit (Stdout (''OK: headlight mode set to '' @ md)) w1)))"

subsection \<open>amc\_action.py: the commands of \<open>main\<close>\<close>

definition amc_post_action ::
    "string \<Rightarrow> string \<Rightarrow> string \<Rightarrow> payload \<Rightarrow> world \<Rightarrow> (exn + unit) \<times> world" where
  "amc_post_action access akey mower_id pl w =
     (case send (ActionPost access akey mower_id pl) w of
        (NoReply, w1) \<Rightarrow> (Inl ClientConnectionError, w1)
      | (Interrupted, w1) \<Rightarrow> (Inl KeyboardInterrupt, w1)
      | (Http status txt b, w1) \<Rightarrow>
          if status \<ge> 400 then
            (Inl (ClientResponseError status),
             emit (Stderr (''POST /v1/mowers/'' @ mower_id @ ''/actions '' @
                           str_nat status @ '': '' @ txt)) w1)
          else (Inr (), w1))"

text \<open>The parsed command line: \<open>pause\<close>, \<open>resume [--fallback-start]\<close>, \<open>park [--duration N]\<close>.\<close>

datatype amc_cmd = CmdPause | CmdResume bool | CmdPark "int option"

fun amc_main_cmd ::
    "string \<Rightarrow> string \<Rightarrow> string \<Rightarrow> amc_cmd \<Rightarrow> world \<Rightarrow> (exn + unit) \<times> world" where
  "amc_main_cmd access akey mid CmdPause w =
     (case amc_post_action access akey mid (action ''Pause'') w of
        (Inl e, w1) \<Rightarrow> (Inl e, w1)
      | (Inr u, w1) \<Rightarrow> (Inr (), emit (Stdout ''OK: mower paused'') w1))"
| "amc_main_cmd access akey mid (CmdResume fallback_start) w =
     (case amc_post_action access akey mid (action ''ResumeSchedule'') w of
        (Inr u, w1) \<Rightarrow> (Inr (), emit (Stdout ''OK: mower resumed'') w1)
      | (Inl e, w1) \<Rightarrow>
          if is_Exception e then
            (if fallback_start then
               (case amc_post_action access akey mid (action ''Start'') w1 of
                  (Inr u, w2) \<Rightarrow> (Inr (), emit (Stdout ''OK: mower resumed'') w2)
                | (Inl e2, w2) \<Rightarrow> (Inl e2, w2))
             else (Inl e, w1))
          else (Inl e, w1))"
| "amc_main_cmd access akey mid (CmdPark duration) w =
     (case amc_post_action access akey mid
             (case duration of
                None \<Rightarrow> action ''ParkUntilFurtherNotice''
              | Some d \<Rightarrow> \<lparr>ptype = ''Park'', attributes = Some [(''duration'', IntV d)]\<rparr>) w of
        (Inl e, w1) \<Rightarrow> (Inl e, w1)
      | (Inr u, w1) \<Rightarrow>
          (Inr (),
           emit (Stdout (case duration of
                           None \<Rightarrow> ''OK: mower parked (until further notice)''
                         | Some d \<Rightarrow> ''OK: mower parked for '' @ str_int d @ '' minutes'')) w1))"

section \<open>The telemetry reporter (main.py)\<close>

record main_config =
  mc_client_id :: string
  mc_client_secret :: string
  mc_api_key :: string
  mc_refresh_token :: string
  poll_seconds :: int
  influx_url :: string
  influx_token :: string
  influx_org :: string
  influx_bucket :: string
  measurement :: string

subsection \<open>\<open>_enum_num\<close>\<close>

text \<open>
  \<open>str.upper\<close> on code points below 256. The upper-case forms of the micro sign and of
  y with diaeresis lie above 255 and are no letter of any table key; they are kept.
\<close>

definition upper_char :: "char \<Rightarrow> string" where
  "upper_char c =
     (let n = (of_char c :: nat) in
      if 97 \<le> n \<and> n \<le> 122 then [char_of (n - 32)]
      else if n = 223 then ''SS''
      else if 224 \<le> n \<and> n \<le> 254 \<and> n \<noteq> 247 then [char_of (n - 32)]
      else [c])"

definition upper :: "string \<Rightarrow> string" where
  "upper s = concat (map upper_char s)"

definition enum_table :: "(string \<times> int) list" where
  "enum_table =
     [(''UNKNOWN'', 0), (''PARKED'', 1), (''PAUSED'', 2), (''STOPPED'', 3),
      (''IN_OPERATION'', 4), (''MOWING'', 5), (''GOING_HOME'', 6), (''LEAVING'', 7),
      (''CHARGING'', 8), (''ERROR'', 9), (''SLEEPING'', 10), (''FATAL_ERROR'', 11),
      (''RESTRICTED'', 12), (''DISCONNECTED'', 13), (''MANUAL_START_REQUIRED'', 14),
      (''AUTO'', 20), (''MAIN_AREA'', 21), (''SECONDARY_AREA'', 22), (''HOME'', 23)]"

fun enum_num :: "string option \<Rightarrow> int option" where
  "enum_num None = None"
| "enum_num (Some val) =
     Some (case map_of enum_table (upper val) of None \<Rightarrow> 0 | Some n \<Rightarrow> n)"

subsection \<open>\<open>InfluxWriter\<close>\<close>

record influx_writer =
  enabled :: bool
  iw_cfg :: main_config

text \<open>\<open>installed\<close> says whether \<open>influxdb_client\<close> could be imported.\<close>

definition InfluxWriter :: "bool \<Rightarrow> main_config \<Rightarrow> world \<Rightarrow> influx_writer \<times> world" where
  "InfluxWriter installed cfg w =
     (let en = (influx_token cfg \<noteq> [] \<and> installed) in
      (\<lparr>enabled = en, iw_cfg = cfg\<rparr>,
       if \<not> en then emit (Log INFO ''InfluxDB disabled (no token or client not installed).'') w
       else w))"

text \<open>
  The loop over \<open>fields.items()\<close>. A field whose value is \<open>None\<close> is skipped. A bool is
  handed to \<open>p.boolean_field\<close>; \<open>Point\<close> of \<open>influxdb_client\<close> has \<open>tag\<close>, \<open>field\<close> and
  \<open>time\<close> but no such method, so that call raises \<open>AttributeError\<close> and \<open>write\<close> ends
  there, before anything is handed to the sink. An int, a float and a string are added
  with \<open>p.field\<close>.
\<close>

fun add_fields :: "(string \<times> field_value option) list \<Rightarrow> point \<Rightarrow> exn + point" where
  "add_fields [] p = Inr p"
| "add_fields ((k, None) # kvs) p = add_fields kvs p"
| "add_fields ((k, Some (FBool b)) # kvs) p = Inl AttributeError"
| "add_fields ((k, Some v) # kvs) p = add_fields kvs (p\<lparr>pfields := pfields p @ [(k, v)]\<rparr>)"

definition influx_write ::
    "influx_writer \<Rightarrow> string \<Rightarrow> string option \<Rightarrow> (string \<times> field_value option) list \<Rightarrow> real
       \<Rightarrow> world \<Rightarrow> (exn + unit) \<times> world" where
  "influx_write self mower_id name flds ts w =
     (if \<not> enabled self then (Inr (), w)
      else
        (let p = \<lparr>pmeasurement = measurement (iw_cfg self),
                  ptags = [(''mower_id'', Some mower_id), (''name'', name)],
                  pfields = [], ptime = ts\<rparr>
         in case add_fields flds p of
              Inl e \<Rightarrow> (Inl e, w)
            | Inr p' \<Rightarrow> (Inr (), emit (InfluxWrite (influx_bucket (iw_cfg self)) p') w)))"

subsection \<open>\<open>fetch_mowers\<close>, \<open>run_once\<close> and \<open>run_loop\<close>\<close>

definition fetch_mowers ::
    "static_auth \<Rightarrow> string \<Rightarrow> world \<Rightarrow> (exn + mower list option) \<times> static_auth \<times> world" where
  "fetch_mowers auth akey w =
     (case async_get_access_token auth w of
        (Inl e, auth1, w1) \<Rightarrow> (Inl e, auth1, w1)
      | (Inr tok, auth1, w1) \<Rightarrow>
          (case send (MowersGet tok akey) w1 of
             (NoReply, w2) \<Rightarrow> (Inl ClientConnectionError, auth1, w2)
           | (Interrupted, w2) \<Rightarrow> (Inl KeyboardInterrupt, auth1, w2)
           | (Http status txt b, w2) \<Rightarrow>
               (let w3 = emit (Log TRACE ''AMC /v1/mowers raw: %s'') w2 in
                if status \<ge> 400 then
                  (Inl (ClientResponseError status), auth1,
                   emit (Log ERROR ''AMC /v1/mowers failed %s: %s'') w3)
                else
                  (case b of
                     OtherBody \<Rightarrow> (Inl ContentTypeError, auth1, w3)
                   | TokenBody tj \<Rightarrow> (Inr None, auth1, w3)
                   | MowersBody d \<Rightarrow> (Inr d, auth1, w3)))))"

text \<open>What \<open>run_once\<close> does for one item of \<open>data\<close>. The summary line goes on with the
  battery level, the state and the position, formatted as floating-point numbers; the
  logger call is recorded by the start of the line, which holds the name.\<close>

definition item_fields :: "mower \<Rightarrow> (string \<times> field_value option) list" where
  "item_fields item =
     (let pos = (if m_positions item \<noteq> [] then last (m_positions item) else (None, None));
          height = (case m_settings_height item of
                      None \<Rightarrow> m_cutting_height item
                    | Some h \<Rightarrow> if h \<noteq> 0 then Some h else m_cutting_height item)
      in [(''battery_percent'', map_option FFloat (m_battery item)),
          (''cutting_height'', map_option FFloat height),
          (''connected'', map_option FBool (m_connected item)),
          (''activity'', map_option FStr (m_activity item)),
          (''state'', map_option FStr (m_state item)),
          (''mode'', map_option FStr (m_mode item)),
          (''activity_num'', map_option FInt (enum_num (m_activity item))),
          (''state_num'', map_option FInt (enum_num (m_state item))),
          (''mode_num'', map_option FInt (enum_num (m_mode item))),
          (''lat'', map_option FFloat (fst pos)),
          (''lng'', map_option FFloat (snd pos))])"

definition report_item ::
    "influx_writer \<Rightarrow> real \<Rightarrow> mower \<Rightarrow> world \<Rightarrow> (exn + unit) \<times> world" where
  "report_item influx ts item w =
     (let mower_id = m_id item;
          name = name_or_id item;
          w1 = emit (Log INFO (''name='' @ str_opt name)) w;
          w2 = emit (Log DEBUG ''Raw mower item: %r'') w1
      in influx_write influx (if truthy mower_id then str_opt mower_id else ''unknown'')
           name (item_fields item) ts w2)"

text \<open>The loop \<open>for item in data\<close>: an exception of \<open>influx.write\<close> ends it.\<close>

fun report_items ::
    "influx_writer \<Rightarrow> real \<Rightarrow> mower list \<Rightarrow> world \<Rightarrow> (exn + unit) \<times> world" where
  "report_items influx ts [] w = (Inr (), w)"
| "report_items influx ts (item # items) w =
     (case report_item influx ts item w of
        (Inl e, w1) \<Rightarrow> (Inl e, w1)
      | (Inr u, w1) \<Rightarrow> report_items influx ts items w1)"

definition run_once ::
    "main_config \<Rightarrow> influx_writer \<Rightarrow> static_auth \<Rightarrow> world \<Rightarrow> (exn + int) \<times> static_auth \<times> world" where
  "run_once cfg influx auth w =
     (if mc_client_id cfg = [] \<or> mc_client_secret cfg = [] \<or> mc_api_key cfg = [] \<or>
         mc_refresh_token cfg = [] then
        (Inr 2, auth,
         emit (Log ERROR ''Missing required env vars (HUSQ_CLIENT_ID/SECRET/APP_KEY/REFRESH_TOKEN).'') w)
      else
        (case fetch_mowers auth (mc_api_key cfg) w of
           (Inl e, auth1, w1) \<Rightarrow> (Inl e, auth1, w1)
         | (Inr payload_data, auth1, w1) \<Rightarrow>
             (let data = (case payload_data of None \<Rightarrow> [] | Some xs \<Rightarrow> xs) in
              if data = [] then
                (Inr 1, auth1,
                 emit (Log WARNING ''No mowers returned. Is this Husqvarna account linked to any mowers?'') w1)
              else
                (case report_items influx (now w1) data w1 of
                   (Inl e, w2) \<Rightarrow> (Inl e, auth1, w2)
                 | (Inr u, w2) \<Rightarrow> (Inr 0, auth1, w2)))))"

definition sleep :: "int \<Rightarrow> world \<Rightarrow> world" where
  "sleep d w = (emit (Sleep d) w)\<lparr>now := now w + real_of_int d\<rparr>"

text \<open>
  \<open>run_loop\<close> is \<open>while True\<close>: it never returns. The model runs a given number of
  iterations and says in what state the loop then is: still \<open>Running\<close>, or \<open>Stopped\<close>
  by an exception that \<open>except Exception\<close> does not catch.
\<close>

datatype loop_status = Running | Stopped exn

fun run_loop ::
    "nat \<Rightarrow> main_config \<Rightarrow> influx_writer \<Rightarrow> static_auth \<Rightarrow> world
       \<Rightarrow> loop_status \<times> static_auth \<times> world" where
  "run_loop 0 cfg influx auth w = (Running, auth, w)"
| "run_loop (Suc n) cfg influx auth w =
     (case run_once cfg influx auth w of
        (Inr rc, auth1, w1) \<Rightarrow>
          run_loop n cfg influx auth1 (sleep (max 1 (poll_seconds cfg)) w1)
      | (Inl e, auth1, w1) \<Rightarrow>
          if is_Exception e then
            run_loop n cfg influx auth1
              (sleep (max 1 (poll_seconds cfg)) (emit (Log ERROR ''Polling error: %s'') w1))
          else (Stopped e, auth1, w1))"

section \<open>Observations on a run\<close>

text \<open>The requests sent, the writes to the file system and the sleeps, in order.\<close>

fun request_of :: "event \<Rightarrow> request list" where
  "request_of (Request r) = [r]"
| "request_of e = []"

definition requests :: "event list \<Rightarrow> request list" where
  "requests tr = concat (map request_of tr)"

fun is_exchange :: "request \<Rightarrow> bool" where
  "is_exchange (TokenPost rt cid cs) = True"
| "is_exchange r = False"

definition exchanges :: "event list \<Rightarrow> nat" where
  "exchanges tr = length (filter is_exchange (requests tr))"

fun write_of :: "event \<Rightarrow> fs_op list" where
  "write_of (Fs op) = [op]"
| "write_of e = []"

definition fs_writes :: "event list \<Rightarrow> fs_op list" where
  "fs_writes tr = concat (map write_of tr)"

fun sleep_of :: "event \<Rightarrow> int list" where
  "sleep_of (Sleep d) = [d]"
| "sleep_of e = []"

definition sleeps :: "event list \<Rightarrow> int list" where
  "sleeps tr = concat (map sleep_of tr)"

fun op_path :: "fs_op \<Rightarrow> string" where
  "op_path (OpenTrunc p) = p"
| "op_path (Write p s) = p"

text \<open>The file system a process leaves behind when it is stopped after the first \<open>k\<close> of the
  writes it would issue.\<close>

definition interrupted_after :: "nat \<Rightarrow> fs_op list \<Rightarrow> filesystem \<Rightarrow> filesystem" where
  "interrupted_after k ops f = run_ops (take k ops) f"

text \<open>Sample inputs: a world with nothing on disk, nothing done yet and the given answers
  waiting; a device list item with no attribute at all.\<close>

definition fresh_world :: "reply list \<Rightarrow> world" where
  "fresh_world rs = \<lparr>fs = (\<lambda>p. Absent), trace = [], replies = rs, now = 0\<rparr>"

definition empty_item :: mower where
  "empty_item = \<lparr>m_id = None, m_name = None, m_headlights = None, m_battery = None,
      m_activity = None, m_state = None, m_mode = None, m_positions = [],
      m_settings_height = None, m_cutting_height = None, m_connected = None\<rparr>"

text \<open>The points handed to the metrics sink, and the entries of a field dictionary whose
  value is not \<open>None\<close>.\<close>

fun point_of :: "event \<Rightarrow> point list" where
  "point_of (InfluxWrite b p) = [p]"
| "point_of e = []"

definition points :: "event list \<Rightarrow> point list" where
  "points tr = concat (map point_of tr)"

definition present :: "(string \<times> field_value option) list \<Rightarrow> (string \<times> field_value) list" where
  "present flds = [(k, v). (k, Some v) \<leftarrow> flds]"

text \<open>A file system whose only file is \<open>.env\<close>, with the given text.\<close>

definition env_with :: "string \<Rightarrow> filesystem" where
  "env_with s = (\<lambda>p. Absent)(''.env'' := Text s)"

text \<open>A sequence of calls of \<open>async_get_access_token\<close> on one object, the clock reading
  the given times; and a successful answer of the token endpoint.\<close>

fun calls :: "real list \<Rightarrow> static_auth \<Rightarrow> world \<Rightarrow> static_auth \<times> world" where
  "calls [] self w = (self, w)"
| "calls (t # ts) self w =
     (case async_get_access_token self (w\<lparr>now := t\<rparr>) of (r, self1, w1) \<Rightarrow> calls ts self1 w1)"

definition token_reply :: "string \<Rightarrow> string json_field \<Rightarrow> int json_field \<Rightarrow> reply" where
  "token_reply acc rt ex =
     Http 200 [] (TokenBody \<lparr>tj_access_token = Val acc, tj_refresh_token = rt, tj_expires_in = ex\<rparr>)"

text \<open>A configuration as \<open>read_config\<close> builds it from an environment that sets the four
  secrets only, with the given polling interval.\<close>

definition sample_config :: "int \<Rightarrow> main_config" where
  "sample_config p =
     \<lparr>mc_client_id = ''id'', mc_client_secret = ''secret'', mc_api_key = ''key'',
      mc_refresh_token = ''rt0'', poll_seconds = p, influx_url = ''http://127.0.0.1:8086'',
      influx_token = [], influx_org = ''home'', influx_bucket = ''automower'',
      measurement = ''automower_status''\<rparr>"

text \<open>Whether a field dictionary holds a bool.\<close>

fun is_bool_field :: "string \<times> field_value option \<Rightarrow> bool" where
  "is_bool_field (k, Some (FBool b)) = True"
| "is_bool_field (k, v) = False"

definition has_bool :: "(string \<times> field_value option) list \<Rightarrow> bool" where
  "has_bool flds = list_ex is_bool_field flds"

section \<open>The requests a command sends\<close>

lemma post_action_requests:
  "requests (trace (snd (post_action tok akey mid pl w))) =
     requests (trace w) @ [ActionPost tok akey mid pl]"
  by (simp add: post_action_def send_def emit_def requests_def
           split: list.splits reply.splits)

lemma amc_post_action_requests:
  "requests (trace (snd (amc_post_action tok akey mid pl w))) =
     requests (trace w) @ [ActionPost tok akey mid pl]"
  by (simp add: amc_post_action_def send_def emit_def requests_def
           split: list.splits reply.splits)

lemma requests_emit_Stdout: "requests (trace (emit (Stdout s) w)) = requests (trace w)"
  by (simp add: emit_def requests_def)

lemma requests_emit_Stderr: "requests (trace (emit (Stderr s) w)) = requests (trace w)"
  by (simp add: emit_def requests_def)

subsection \<open>Park\<close>

lemma do_park_requests:
  "requests (trace (snd (do_park tok akey mid dur un w))) =
     requests (trace w) @ [ActionPost tok akey mid (park_payload dur un)]"
proof (cases "post_action tok akey mid (park_payload dur un) w")
  case (Pair r w1)
  with post_action_requests[of tok akey mid "park_payload dur un" w]
  have "requests (trace w1) = requests (trace w) @ [ActionPost tok akey mid (park_payload dur un)]"
    by simp
  with Pair show ?thesis
    by (cases r) (simp_all add: do_park_def requests_emit_Stdout)
qed

lemma amc_park_requests:
  "requests (trace (snd (amc_main_cmd tok akey mid (CmdPark dur) w))) =
     requests (trace w) @ [ActionPost tok akey mid (park_payload dur False)]"
proof (cases "amc_post_action tok akey mid (park_payload dur False) w")
  case (Pair r w1)
  with amc_post_action_requests[of tok akey mid "park_payload dur False" w]
  have "requests (trace w1) = requests (trace w) @ [ActionPost tok akey mid (park_payload dur False)]"
    by simp
  with Pair show ?thesis
    by (cases r) (simp_all add: park_payload_def requests_emit_Stdout)
qed

text \<open>
  C7. \<open>do_park\<close> sends exactly one request. With no duration and no until-next flag it is
  ParkUntilFurtherNotice; with a duration \<open>d\<close> and no until-next flag it is Park with the
  attribute duration = \<open>d\<close>; with until-next set it is ParkUntilNextSchedule, whatever the
  duration. The park command of amc\_action.py, which has no until-next flag, sends the
  same two requests for the first two cases.
\<close>

theorem park_request:
  "requests (trace (snd (do_park tok akey mid None False w))) =
     requests (trace w) @
       [ActionPost tok akey mid \<lparr>ptype = ''ParkUntilFurtherNotice'', attributes = None\<rparr>]
   \<and> requests (trace (snd (do_park tok akey mid (Some d) False w))) =
     requests (trace w) @
       [ActionPost tok akey mid \<lparr>ptype = ''Park'', attributes = Some [(''duration'', IntV d)]\<rparr>]
   \<and> requests (trace (snd (do_park tok akey mid duration True w))) =
     requests (trace w) @
       [ActionPost tok akey mid \<lparr>ptype = ''ParkUntilNextSchedule'', attributes = None\<rparr>]
   \<and> requests (trace (snd (amc_main_cmd tok akey mid (CmdPark None) w))) =
     requests (trace w) @
       [ActionPost tok akey mid \<lparr>ptype = ''ParkUntilFurtherNotice'', attributes = None\<rparr>]
   \<and> requests (trace (snd (amc_main_cmd tok akey mid (CmdPark (Some d)) w))) =
     requests (trace w) @
       [ActionPost tok akey mid \<lparr>ptype = ''Park'', attributes = Some [(''duration'', IntV d)]\<rparr>]"
  by (simp add: do_park_requests amc_park_requests park_payload_def action_def
           del: amc_main_cmd.simps)

theorem park_request_witness:
  "requests (trace (snd (do_park ''tok'' ''key'' ''m1'' (Some 30) False
      \<lparr>fs = (\<lambda>p. Absent), trace = [], replies = [Http 202 [] OtherBody], now = 0\<rparr>))) =
     [ActionPost ''tok'' ''key'' ''m1''
        \<lparr>ptype = ''Park'', attributes = Some [(''duration'', IntV 30)]\<rparr>]
   \<and> requests (trace (snd (do_park ''tok'' ''key'' ''m1'' (Some 30) True
      \<lparr>fs = (\<lambda>p. Absent), trace = [], replies = [Http 202 [] OtherBody], now = 0\<rparr>))) =
     [ActionPost ''tok'' ''key'' ''m1'' \<lparr>ptype = ''ParkUntilNextSchedule'', attributes = None\<rparr>]"
  using park_request [of "''tok''" "''key''" "''m1''"
      "\<lparr>fs = (\<lambda>p. Absent), trace = [], replies = [Http 202 [] OtherBody], now = 0\<rparr>" 30 "Some 30"]
  by (simp add: requests_def)

subsection \<open>Resume with fallback\<close>


lemma amc_resume_cases:
  assumes "amc_post_action tok akey mid (action ''ResumeSchedule'') w = (r1, w1)"
  shows "r1 = Inr () \<Longrightarrow>
           amc_main_cmd tok akey mid (CmdResume fb) w = (Inr (), emit (Stdout ''OK: mower resumed'') w1)"
    and "r1 = Inl e \<Longrightarrow> \<not> fb \<Longrightarrow> amc_main_cmd tok akey mid (CmdResume fb) w = (Inl e, w1)"
    and "r1 = Inl e \<Longrightarrow> \<not> is_Exception e \<Longrightarrow> amc_main_cmd tok akey mid (CmdResume fb) w = (Inl e, w1)"
    and "r1 = Inl e \<Longrightarrow> is_Exception e \<Longrightarrow> fb \<Longrightarrow>
           fst (amc_main_cmd tok akey mid (CmdResume fb) w) = fst (amc_post_action tok akey mid (action ''Start'') w1)
         \<and> requests (trace (snd (amc_main_cmd tok akey mid (CmdResume fb) w))) =
             requests (trace w1) @ [ActionPost tok akey mid (action ''Start'')]"
proof -
  show "r1 = Inr () \<Longrightarrow>
           amc_main_cmd tok akey mid (CmdResume fb) w = (Inr (), emit (Stdout ''OK: mower resumed'') w1)"
    using assms by simp
  show "r1 = Inl e \<Longrightarrow> \<not> fb \<Longrightarrow> amc_main_cmd tok akey mid (CmdResume fb) w = (Inl e, w1)"
    using assms by simp
  show "r1 = Inl e \<Longrightarrow> \<not> is_Exception e \<Longrightarrow> amc_main_cmd tok akey mid (CmdResume fb) w = (Inl e, w1)"
    using assms by simp
  show "r1 = Inl e \<Longrightarrow> is_Exception e \<Longrightarrow> fb \<Longrightarrow>
           fst (amc_main_cmd tok akey mid (CmdResume fb) w) = fst (amc_post_action tok akey mid (action ''Start'') w1)
         \<and> requests (trace (snd (amc_main_cmd tok akey mid (CmdResume fb) w))) =
             requests (trace w1) @ [ActionPost tok akey mid (action ''Start'')]"
  proof -
    assume h: "r1 = Inl e" "is_Exception e" "fb"
    obtain r2 w2 where p2: "amc_post_action tok akey mid (action ''Start'') w1 = (r2, w2)"
      by (cases "amc_post_action tok akey mid (action ''Start'') w1")
    with amc_post_action_requests[of tok akey mid "action ''Start''" w1]
    have rq: "requests (trace w2) = requests (trace w1) @ [ActionPost tok akey mid (action ''Start'')]"
      by simp
    show ?thesis using assms h p2 rq
      by (cases r2) (simp_all add: requests_emit_Stdout)
  qed
qed



text \<open>The resume command of amc\_action.py behaves in the same way.\<close>

lemma amc_resume_fallback:
  "(fst (amc_post_action tok akey mid (action ''ResumeSchedule'') w) = Inr () \<longrightarrow>
      fst (amc_main_cmd tok akey mid (CmdResume fb) w) = Inr ()
      \<and> requests (trace (snd (amc_main_cmd tok akey mid (CmdResume fb) w))) =
          requests (trace w) @ [ActionPost tok akey mid (action ''ResumeSchedule'')])
   \<and> (\<forall>e. fst (amc_post_action tok akey mid (action ''ResumeSchedule'') w) = Inl e
            \<and> is_Exception e \<longrightarrow>
          requests (trace (snd (amc_main_cmd tok akey mid (CmdResume True) w))) =
            requests (trace w) @ [ActionPost tok akey mid (action ''ResumeSchedule''),
                                  ActionPost tok akey mid (action ''Start'')]
          \<and> fst (amc_main_cmd tok akey mid (CmdResume True) w) =
              fst (amc_post_action tok akey mid (action ''Start'')
                     (snd (amc_post_action tok akey mid (action ''ResumeSchedule'') w)))
          \<and> fst (amc_main_cmd tok akey mid (CmdResume False) w) = Inl e
          \<and> requests (trace (snd (amc_main_cmd tok akey mid (CmdResume False) w))) =
              requests (trace w) @ [ActionPost tok akey mid (action ''ResumeSchedule'')])
   \<and> (\<exists>rest. requests (trace (snd (amc_main_cmd tok akey mid (CmdResume fb) w))) =
         requests (trace w) @ ActionPost tok akey mid (action ''ResumeSchedule'') # rest)"
proof -
  define r1 where "r1 = fst (amc_post_action tok akey mid (action ''ResumeSchedule'') w)"
  define w1 where "w1 = snd (amc_post_action tok akey mid (action ''ResumeSchedule'') w)"
  have p1: "amc_post_action tok akey mid (action ''ResumeSchedule'') w = (r1, w1)"
    by (simp add: r1_def w1_def)
  with amc_post_action_requests[of tok akey mid "action ''ResumeSchedule''" w]
  have rq1: "requests (trace w1) =
               requests (trace w) @ [ActionPost tok akey mid (action ''ResumeSchedule'')]"
    by simp
  have A: "r1 = Inr () \<longrightarrow> fst (amc_main_cmd tok akey mid (CmdResume fb) w) = Inr ()
      \<and> requests (trace (snd (amc_main_cmd tok akey mid (CmdResume fb) w))) =
          requests (trace w) @ [ActionPost tok akey mid (action ''ResumeSchedule'')]"
    using amc_resume_cases(1)[OF p1, of fb] rq1 by (simp add: requests_emit_Stdout)
  have B: "\<forall>e. r1 = Inl e \<and> is_Exception e \<longrightarrow>
          requests (trace (snd (amc_main_cmd tok akey mid (CmdResume True) w))) =
            requests (trace w) @ [ActionPost tok akey mid (action ''ResumeSchedule''),
                                  ActionPost tok akey mid (action ''Start'')]
          \<and> fst (amc_main_cmd tok akey mid (CmdResume True) w) =
              fst (amc_post_action tok akey mid (action ''Start'') w1)
          \<and> fst (amc_main_cmd tok akey mid (CmdResume False) w) = Inl e
          \<and> requests (trace (snd (amc_main_cmd tok akey mid (CmdResume False) w))) =
              requests (trace w) @ [ActionPost tok akey mid (action ''ResumeSchedule'')]"
    using amc_resume_cases(2)[OF p1, of _ False] amc_resume_cases(4)[OF p1, of _ True] rq1
    by simp
  have C: "\<exists>rest. requests (trace (snd (amc_main_cmd tok akey mid (CmdResume fb) w))) =
         requests (trace w) @ ActionPost tok akey mid (action ''ResumeSchedule'') # rest"
  proof (cases r1)
    case (Inr u)
    then show ?thesis using A by simp
  next
    case (Inl e)
    show ?thesis
    proof (cases "is_Exception e \<and> fb")
      case True
      then show ?thesis using amc_resume_cases(4)[OF p1 Inl, of fb] rq1 by simp
    next
      case False
      then have "amc_main_cmd tok akey mid (CmdResume fb) w = (Inl e, w1)"
        using amc_resume_cases(2)[OF p1 Inl, of fb] amc_resume_cases(3)[OF p1 Inl, of fb] by blast
      then show ?thesis using rq1 by simp
    qed
  qed
  show ?thesis using A B C unfolding r1_def w1_def by blast
qed

subsection \<open>Headlight capability\<close>

lemma do_set_headlight_requests:
  "m_headlights m = Some True \<Longrightarrow>
     requests (trace (snd (do_set_headlight tok akey m md w))) =
       requests (trace w) @
         [ActionPost tok akey (str_opt (m_id m))
            \<lparr>ptype = ''settings'',
             attributes = Some [(''headlight'', ObjV [(''mode'', StrV md)])]\<rparr>]"
proof -
  assume h: "m_headlights m = Some True"
  let ?pl = "\<lparr>ptype = ''settings'',
             attributes = Some [(''headlight'', ObjV [(''mode'', StrV md)])]\<rparr>"
  obtain r w1 where p: "post_action tok akey (str_opt (m_id m)) ?pl w = (r, w1)"
    by (cases "post_action tok akey (str_opt (m_id m)) ?pl w")
  with post_action_requests[of tok akey "str_opt (m_id m)" ?pl w]
  have "requests (trace w1) = requests (trace w) @ [ActionPost tok akey (str_opt (m_id m)) ?pl]"
    by simp
  with p h show ?thesis
    by (cases r) (simp_all add: do_set_headlight_def requests_emit_Stdout)
qed

text \<open>
  C8. When the device's capabilities do not hold \<open>headlights = true\<close> (the flag is missing
  or false), \<open>do_set_headlight\<close> sends no request, prints one message for the user and
  returns normally. When the flag is true it sends the one settings request; so a request
  is sent only when the flag is present and true.
\<close>

theorem headlight_gate:
  "(m_headlights m \<noteq> Some True \<longrightarrow>
      do_set_headlight tok akey m md w =
        (Inr (),
         emit (Stderr (''Model has no headlights capability (headlights=False) for '' @
                       [apostrophe] @ str_opt (name_or_id m) @ [apostrophe] @ ''.'')) w)
      \<and> requests (trace (snd (do_set_headlight tok akey m md w))) = requests (trace w))
   \<and> (m_headlights m = Some True \<longrightarrow>
      requests (trace (snd (do_set_headlight tok akey m md w))) =
        requests (trace w) @
          [ActionPost tok akey (str_opt (m_id m))
             \<lparr>ptype = ''settings'',
              attributes = Some [(''headlight'', ObjV [(''mode'', StrV md)])]\<rparr>])"
  using do_set_headlight_requests[of m tok akey md w]
  by (simp add: do_set_headlight_def requests_emit_Stderr)


theorem headlight_gate_witness:
  "fst (do_set_headlight ''tok'' ''key'' (empty_item\<lparr>m_id := Some ''m1''\<rparr>) ''ALWAYS_ON''
          (fresh_world [Http 202 [] OtherBody])) = Inr ()
   \<and> requests (trace (snd (do_set_headlight ''tok'' ''key'' (empty_item\<lparr>m_id := Some ''m1''\<rparr>)
          ''ALWAYS_ON'' (fresh_world [Http 202 [] OtherBody])))) = []
   \<and> requests (trace (snd (do_set_headlight ''tok'' ''key''
          (empty_item\<lparr>m_id := Some ''m1'', m_headlights := Some True\<rparr>)
          ''ALWAYS_ON'' (fresh_world [Http 202 [] OtherBody])))) =
       [ActionPost ''tok'' ''key'' ''m1''
          \<lparr>ptype = ''settings'',
           attributes = Some [(''headlight'', ObjV [(''mode'', StrV ''ALWAYS_ON'')])]\<rparr>]"
  using headlight_gate [of "empty_item\<lparr>m_id := Some ''m1''\<rparr>" "''tok''" "''key''" "''ALWAYS_ON''"
          "fresh_world [Http 202 [] OtherBody]"]
        headlight_gate [of "empty_item\<lparr>m_id := Some ''m1'', m_headlights := Some True\<rparr>"
          "''tok''" "''key''" "''ALWAYS_ON''" "fresh_world [Http 202 [] OtherBody]"]
  by (simp add: fresh_world_def empty_item_def requests_def)

section \<open>Telemetry fields\<close>

lemma present_simps:
  "present [] = []"
  "present ((k, None) # kvs) = present kvs"
  "present ((k, Some v) # kvs) = (k, v) # present kvs"
  by (simp_all add: present_def)

lemma add_fields_present:
  "add_fields flds p =
     (if has_bool flds then Inl AttributeError
      else Inr (p\<lparr>pfields := pfields p @ present flds\<rparr>))"
  by (induction flds p rule: add_fields.induct) (simp_all add: present_simps has_bool_def)





lemma points_emit [simp]: "points (trace (emit e w)) = points (trace w) @ point_of e"
  by (simp add: emit_def points_def)







section \<open>Device resolution\<close>

lemma find_hit:
  "\<exists>x\<in>set xs. P x \<Longrightarrow> \<exists>y. find P xs = Some y \<and> y \<in> set xs \<and> P y"
  by (induction xs) auto

lemma find_miss: "\<forall>x\<in>set xs. \<not> P x \<Longrightarrow> find P xs = None"
  by (induction xs) auto

lemma pick_mower_by_id:
  assumes "items \<noteq> []" "truthy i"
  shows "(\<exists>it\<in>set items. m_id it = i) \<Longrightarrow>
           \<exists>it. pick_mower (Some items) i n w = (Inr it, w) \<and> it \<in> set items \<and> m_id it = i"
    and "(\<forall>it\<in>set items. m_id it \<noteq> i) \<Longrightarrow>
           pick_mower (Some items) i n w =
             (Inl (SystemExit (ExitMsg (''Mower id '' @ [apostrophe] @ str_opt i @
                                        [apostrophe] @ '' not found.''))), w)"
proof -
  assume "\<exists>it\<in>set items. m_id it = i"
  from find_hit[of items "\<lambda>it. m_id it = i", OF this] assms
  show "\<exists>it. pick_mower (Some items) i n w = (Inr it, w) \<and> it \<in> set items \<and> m_id it = i"
    by (auto simp: pick_mower_def)
next
  assume "\<forall>it\<in>set items. m_id it \<noteq> i"
  from find_miss[of items "\<lambda>it. m_id it = i", OF this] assms
  show "pick_mower (Some items) i n w =
             (Inl (SystemExit (ExitMsg (''Mower id '' @ [apostrophe] @ str_opt i @
                                        [apostrophe] @ '' not found.''))), w)"
    by (simp add: pick_mower_def)
qed

lemma pick_mower_by_name:
  assumes "items \<noteq> []" "\<not> truthy i" "truthy n"
  shows "(\<exists>it\<in>set items. m_name it = n) \<Longrightarrow>
           \<exists>it. pick_mower (Some items) i n w = (Inr it, w) \<and> it \<in> set items \<and> m_name it = n"
    and "(\<forall>it\<in>set items. m_name it \<noteq> n) \<Longrightarrow>
           pick_mower (Some items) i n w =
             (Inl (SystemExit (ExitMsg (''Mower name '' @ [apostrophe] @ str_opt n @
                                        [apostrophe] @ '' not found.''))), w)"
proof -
  assume "\<exists>it\<in>set items. m_name it = n"
  from find_hit[of items "\<lambda>it. m_name it = n", OF this] assms
  show "\<exists>it. pick_mower (Some items) i n w = (Inr it, w) \<and> it \<in> set items \<and> m_name it = n"
    by (auto simp: pick_mower_def)
next
  assume "\<forall>it\<in>set items. m_name it \<noteq> n"
  from find_miss[of items "\<lambda>it. m_name it = n", OF this] assms
  show "pick_mower (Some items) i n w =
             (Inl (SystemExit (ExitMsg (''Mower name '' @ [apostrophe] @ str_opt n @
                                        [apostrophe] @ '' not found.''))), w)"
    by (simp add: pick_mower_def)
qed

lemma pick_mower_no_selector:
  assumes "\<not> truthy i" "\<not> truthy n"
  shows "pick_mower (Some [it]) i n w = (Inr it, w)"
    and "2 \<le> length items \<Longrightarrow>
           pick_mower (Some items) i n w =
             (Inl (SystemExit (ExitInt 2)),
              w\<lparr>trace := trace w @
                   Stderr ''Multiple mowers found; choose one with --mower-id or --mower-name:''
                   # map (\<lambda>it. Stderr (''- '' @ name_or_noname it @ ''  ('' @
                                         str_opt (m_id it) @ '')'')) items\<rparr>)"
proof -
  show "pick_mower (Some [it]) i n w = (Inr it, w)"
    using assms by (simp add: pick_mower_def)
  assume "2 \<le> length items"
  then obtain a b rest where "items = a # b # rest"
    by (cases items; cases "tl items") auto
  then show "pick_mower (Some items) i n w =
             (Inl (SystemExit (ExitInt 2)),
              w\<lparr>trace := trace w @
                   Stderr ''Multiple mowers found; choose one with --mower-id or --mower-name:''
                   # map (\<lambda>it. Stderr (''- '' @ name_or_noname it @ ''  ('' @
                                         str_opt (m_id it) @ '')'')) items\<rparr>)"
    using assms by (simp add: pick_mower_def emits_def candidate_line_def)
qed

lemma pick_mower_empty:
  "pick_mower (Some []) i n w =
     (Inl (SystemExit (ExitMsg ''No mowers visible on this account.'')), w)"
  "pick_mower None i n w =
     (Inl (SystemExit (ExitMsg ''No mowers visible on this account.'')), w)"
  by (simp_all add: pick_mower_def)

text \<open>
  C3, as the code has it. An empty device list fails first, whatever the selector, with the
  message "No mowers visible on this account." and status 1, and nothing is listed. For a
  list that is not empty: a given id returns a device of the list with exactly that id, or
  fails with a not-found message and status 1 when no device has it; else a given name
  returns a device with exactly that name, or fails likewise; else a single device is
  returned; else every candidate is printed to stderr as a line with its name and id and
  the exit status is 2. A selector is given when it is a non-empty string.
\<close>

theorem pick_mower_policy:
  "(items \<noteq> [] \<and> truthy i \<longrightarrow>
      ((\<exists>it\<in>set items. m_id it = i) \<longrightarrow>
         (\<exists>it. pick_mower (Some items) i n w = (Inr it, w) \<and> it \<in> set items \<and> m_id it = i))
      \<and> ((\<forall>it\<in>set items. m_id it \<noteq> i) \<longrightarrow>
         (\<exists>msg. pick_mower (Some items) i n w = (Inl (SystemExit (ExitMsg msg)), w)
                \<and> exit_status (SystemExit (ExitMsg msg)) = 1)))
   \<and> (items \<noteq> [] \<and> \<not> truthy i \<and> truthy n \<longrightarrow>
      ((\<exists>it\<in>set items. m_name it = n) \<longrightarrow>
         (\<exists>it. pick_mower (Some items) i n w = (Inr it, w) \<and> it \<in> set items \<and> m_name it = n))
      \<and> ((\<forall>it\<in>set items. m_name it \<noteq> n) \<longrightarrow>
         (\<exists>msg. pick_mower (Some items) i n w = (Inl (SystemExit (ExitMsg msg)), w)
                \<and> exit_status (SystemExit (ExitMsg msg)) = 1)))
   \<and> (\<not> truthy i \<and> \<not> truthy n \<longrightarrow>
      pick_mower (Some [it1]) i n w = (Inr it1, w)
      \<and> (2 \<le> length items \<longrightarrow>
           pick_mower (Some items) i n w =
             (Inl (SystemExit (ExitInt 2)),
              w\<lparr>trace := trace w @
                   Stderr ''Multiple mowers found; choose one with --mower-id or --mower-name:''
                   # map (\<lambda>it. Stderr (''- '' @ name_or_noname it @ ''  ('' @
                                         str_opt (m_id it) @ '')'')) items\<rparr>)
           \<and> exit_status (SystemExit (ExitInt 2)) = 2))
   \<and> pick_mower (Some []) i n w =
        (Inl (SystemExit (ExitMsg ''No mowers visible on this account.'')), w)
   \<and> pick_mower None i n w =
        (Inl (SystemExit (ExitMsg ''No mowers visible on this account.'')), w)
   \<and> exit_status (SystemExit (ExitMsg ''No mowers visible on this account.'')) = 1"
  using pick_mower_by_id(1)[where items = items and i = i and n = n and w = w]
    pick_mower_by_id(2)[where items = items and i = i and n = n and w = w]
    pick_mower_by_name(1)[where items = items and i = i and n = n and w = w]
    pick_mower_by_name(2)[where items = items and i = i and n = n and w = w]
    pick_mower_no_selector(1)[where i = i and n = n and it = it1 and w = w]
    pick_mower_no_selector(2)[where i = i and n = n and items = items and w = w]
    pick_mower_empty(1)[where i = i and n = n and w = w]
    pick_mower_empty(2)[where i = i and n = n and w = w]
  by simp


theorem pick_mower_policy_witness:
  "fst (pick_mower (Some [empty_item\<lparr>m_id := Some ''1'', m_name := Some ''A''\<rparr>,
                          empty_item\<lparr>m_id := Some ''2'', m_name := Some ''B''\<rparr>,
                          empty_item\<lparr>m_id := Some ''3'', m_name := Some ''C''\<rparr>])
          (Some ''2'') None (fresh_world [])) =
     Inr (empty_item\<lparr>m_id := Some ''2'', m_name := Some ''B''\<rparr>)
   \<and> fst (pick_mower (Some [empty_item\<lparr>m_id := Some ''1'', m_name := Some ''A''\<rparr>,
                          empty_item\<lparr>m_id := Some ''2'', m_name := Some ''B''\<rparr>,
                          empty_item\<lparr>m_id := Some ''3'', m_name := Some ''C''\<rparr>])
          None (Some ''C'') (fresh_world [])) =
     Inr (empty_item\<lparr>m_id := Some ''3'', m_name := Some ''C''\<rparr>)
   \<and> pick_mower (Some [empty_item\<lparr>m_id := Some ''1'', m_name := Some ''A''\<rparr>,
                          empty_item\<lparr>m_id := Some ''2'', m_name := Some ''B''\<rparr>,
                          empty_item\<lparr>m_id := Some ''3'', m_name := Some ''C''\<rparr>])
          None None (fresh_world []) =
     (Inl (SystemExit (ExitInt 2)),
      (fresh_world [])\<lparr>trace :=
         [Stderr ''Multiple mowers found; choose one with --mower-id or --mower-name:'',
          Stderr ''- A  (1)'', Stderr ''- B  (2)'', Stderr ''- C  (3)'']\<rparr>)
   \<and> fst (pick_mower (Some [empty_item\<lparr>m_id := Some ''1'', m_name := Some ''A''\<rparr>])
          None None (fresh_world [])) =
     Inr (empty_item\<lparr>m_id := Some ''1'', m_name := Some ''A''\<rparr>)"
  using pick_mower_policy
    [where items = "[empty_item\<lparr>m_id := Some ''1'', m_name := Some ''A''\<rparr>,
                     empty_item\<lparr>m_id := Some ''2'', m_name := Some ''B''\<rparr>,
                     empty_item\<lparr>m_id := Some ''3'', m_name := Some ''C''\<rparr>]"
       and i = None and n = None and w = "fresh_world []"
       and ?it1.0 = "empty_item\<lparr>m_id := Some ''1'', m_name := Some ''A''\<rparr>"]
  by (simp add: pick_mower_def fresh_world_def empty_item_def name_or_noname_def)

text \<open>
  C3 as stated fails on the empty list with no selector: there is not exactly one device,
  yet the failure is not the ambiguous selection with status 2 but the generic one with
  status 1, and no candidate is printed.
\<close>

theorem pick_mower_empty_counterexample:
  "pick_mower (Some []) None None (fresh_world []) =
     (Inl (SystemExit (ExitMsg ''No mowers visible on this account.'')), fresh_world [])
   \<and> exit_status (SystemExit (ExitMsg ''No mowers visible on this account.'')) = 1
   \<and> fst (pick_mower (Some []) None None (fresh_world [])) \<noteq> Inl (SystemExit (ExitInt 2))"
  by (simp add: pick_mower_def)

text \<open>\<open>pick_mower\<close> of amc\_action.py follows the same order and returns the id.\<close>

lemma amc_pick_mower_policy:
  "amc_pick_mower (Some []) i n w =
     (Inl (SystemExit (ExitMsg ''No mowers visible on this account.'')), w)"
  "\<not> truthy i \<Longrightarrow> \<not> truthy n \<Longrightarrow> 2 \<le> length items \<Longrightarrow>
     amc_pick_mower (Some items) i n w =
       (Inl (SystemExit (ExitInt 2)),
        w\<lparr>trace := trace w @
             Stderr ''Multiple mowers found; use --mower-id or --mower-name:''
             # map (\<lambda>it. Stderr (''- '' @ name_or_noname it @ '' ('' @
                                   str_opt (m_id it) @ '')'')) items\<rparr>)"
  "\<not> truthy i \<Longrightarrow> \<not> truthy n \<Longrightarrow> amc_pick_mower (Some [it]) i n w = (item_id it, w)"
proof -
  show "amc_pick_mower (Some []) i n w =
     (Inl (SystemExit (ExitMsg ''No mowers visible on this account.'')), w)"
    by (simp add: amc_pick_mower_def)
  show "\<not> truthy i \<Longrightarrow> \<not> truthy n \<Longrightarrow> amc_pick_mower (Some [it]) i n w = (item_id it, w)"
    by (simp add: amc_pick_mower_def)
  assume h: "\<not> truthy i" "\<not> truthy n" "2 \<le> length items"
  then obtain a b rest where "items = a # b # rest"
    by (cases items; cases "tl items") auto
  then show "amc_pick_mower (Some items) i n w =
       (Inl (SystemExit (ExitInt 2)),
        w\<lparr>trace := trace w @
             Stderr ''Multiple mowers found; use --mower-id or --mower-name:''
             # map (\<lambda>it. Stderr (''- '' @ name_or_noname it @ '' ('' @
                                   str_opt (m_id it) @ '')'')) items\<rparr>)"
    using h by (simp add: amc_pick_mower_def emits_def amc_candidate_line_def)
qed

section \<open>Writing the credential file\<close>

lemma run_write_text:
  "run_ops (write_text p s) f = f(p := Text s)"
  by (simp add: write_text_def)

lemma persist_refresh_token_to_env_writes_shape:
  "persist_refresh_token_to_env_writes rt env f = Inr ops \<Longrightarrow> \<exists>s. ops = write_text env s"
  by (auto simp: persist_refresh_token_to_env_writes_def Let_def split: file_state.splits)

lemma persist_rotated_rt_writes_shape:
  "persist_rotated_rt_writes rt env f = Inr ops \<Longrightarrow> \<exists>s. ops = write_text env s"
  by (auto simp: persist_rotated_rt_writes_def Let_def
           split: file_state.splits option.splits if_splits)

lemma interrupted_write_text:
  "interrupted_after 0 (write_text p s) f = f"
  "interrupted_after (Suc 0) (write_text p s) f = f(p := Text [])"
  "2 \<le> k \<Longrightarrow> interrupted_after k (write_text p s) f = f(p := Text s)"
proof -
  show "interrupted_after 0 (write_text p s) f = f"
    by (simp add: interrupted_after_def)
  show "interrupted_after (Suc 0) (write_text p s) f = f(p := Text [])"
    by (simp add: interrupted_after_def write_text_def)
  assume "2 \<le> k"
  then have "take k (write_text p s) = write_text p s"
    by (simp add: write_text_def)
  then show "interrupted_after k (write_text p s) f = f(p := Text s)"
    by (simp add: interrupted_after_def run_write_text)
qed

lemma interrupted_other_path:
  "q \<noteq> p \<Longrightarrow> interrupted_after k (write_text p s) f q = f q"
proof -
  assume q: "q \<noteq> p"
  consider "k = 0" | "k = 1" | "2 \<le> k" by linarith
  then show ?thesis using q by cases (simp_all add: interrupted_write_text)
qed

text \<open>
  C6, as the code has it. Both persist functions write the credential file in place: they
  issue, on the credential file itself and on no other path, one open for writing, which
  empties the file, and then one write of the whole new text. Stopped before the first
  step the file is as it was; stopped between the two it is empty; after both it holds
  the new text. No other file is changed at any point.
\<close>

theorem persist_writes_in_place:
  "(persist_refresh_token_to_env_writes rt env f = Inr ops
      \<or> persist_rotated_rt_writes rt env f = Inr ops) \<longrightarrow>
   (\<exists>s. ops = [OpenTrunc env, Write env s]
        \<and> interrupted_after 0 ops f = f
        \<and> interrupted_after 1 ops f env = Text []
        \<and> (\<forall>k. 2 \<le> k \<longrightarrow> interrupted_after k ops f env = Text s)
        \<and> (\<forall>k q. q \<noteq> env \<longrightarrow> interrupted_after k ops f q = f q))"
proof
  assume "persist_refresh_token_to_env_writes rt env f = Inr ops
      \<or> persist_rotated_rt_writes rt env f = Inr ops"
  then obtain s where s: "ops = write_text env s"
    using persist_refresh_token_to_env_writes_shape persist_rotated_rt_writes_shape by blast
  have "ops = [OpenTrunc env, Write env s]"
    using s by (simp add: write_text_def)
  moreover have "interrupted_after 0 ops f = f"
    using s by (simp add: interrupted_write_text)
  moreover have "interrupted_after 1 ops f env = Text []"
    using s by (simp add: interrupted_write_text)
  moreover have "\<forall>k. 2 \<le> k \<longrightarrow> interrupted_after k ops f env = Text s"
    using s by (simp add: interrupted_write_text)
  moreover have "\<forall>k q. q \<noteq> env \<longrightarrow> interrupted_after k ops f q = f q"
    using s by (simp add: interrupted_other_path)
  ultimately show "\<exists>s. ops = [OpenTrunc env, Write env s]
        \<and> interrupted_after 0 ops f = f
        \<and> interrupted_after 1 ops f env = Text []
        \<and> (\<forall>k. 2 \<le> k \<longrightarrow> interrupted_after k ops f env = Text s)
        \<and> (\<forall>k q. q \<noteq> env \<longrightarrow> interrupted_after k ops f q = f q)"
    by blast
qed

lemma persist_main_example:
  "persist_refresh_token_to_env_writes ''new'' ''.env''
       (env_with (''HUSQ_CLIENT_ID=abc'' @ [LF] @ ''HUSQ_REFRESH_TOKEN=old'' @ [LF])) =
     Inr [OpenTrunc ''.env'',
          Write ''.env'' (''HUSQ_CLIENT_ID=abc'' @ [LF] @ ''HUSQ_REFRESH_TOKEN=new'' @ [LF])]"
  by (simp add: persist_refresh_token_to_env_writes_def env_with_def splitlines_def
        linebreak_def RT_KEY_def strip_def isspace_def write_text_def)

theorem persist_writes_in_place_witness:
  "interrupted_after 1
        [OpenTrunc ''.env'',
         Write ''.env'' (''HUSQ_CLIENT_ID=abc'' @ [LF] @ ''HUSQ_REFRESH_TOKEN=new'' @ [LF])]
        (env_with (''HUSQ_CLIENT_ID=abc'' @ [LF] @ ''HUSQ_REFRESH_TOKEN=old'' @ [LF])) ''.env'' =
     Text []
   \<and> interrupted_after 2
        [OpenTrunc ''.env'',
         Write ''.env'' (''HUSQ_CLIENT_ID=abc'' @ [LF] @ ''HUSQ_REFRESH_TOKEN=new'' @ [LF])]
        (env_with (''HUSQ_CLIENT_ID=abc'' @ [LF] @ ''HUSQ_REFRESH_TOKEN=old'' @ [LF])) ''.env'' =
     Text (''HUSQ_CLIENT_ID=abc'' @ [LF] @ ''HUSQ_REFRESH_TOKEN=new'' @ [LF])"
  using persist_writes_in_place
    [of "''new''" "''.env''"
        "env_with (''HUSQ_CLIENT_ID=abc'' @ [LF] @ ''HUSQ_REFRESH_TOKEN=old'' @ [LF])"
        "[OpenTrunc ''.env'',
          Write ''.env'' (''HUSQ_CLIENT_ID=abc'' @ [LF] @ ''HUSQ_REFRESH_TOKEN=new'' @ [LF])]"]
    persist_main_example
  by simp

text \<open>
  C6 as stated fails: there is no temporary file and no replace. A process stopped after
  the open and before the write leaves the credential file empty, so the entry of the
  unrelated key \<open>HUSQ_CLIENT_ID\<close> is lost.
\<close>

theorem persist_interrupted_counterexample:
  "persist_refresh_token_to_env_writes ''new'' ''.env''
       (env_with (''HUSQ_CLIENT_ID=abc'' @ [LF] @ ''HUSQ_REFRESH_TOKEN=old'' @ [LF])) =
     Inr [OpenTrunc ''.env'',
          Write ''.env'' (''HUSQ_CLIENT_ID=abc'' @ [LF] @ ''HUSQ_REFRESH_TOKEN=new'' @ [LF])]
   \<and> interrupted_after 1
        [OpenTrunc ''.env'',
         Write ''.env'' (''HUSQ_CLIENT_ID=abc'' @ [LF] @ ''HUSQ_REFRESH_TOKEN=new'' @ [LF])]
        (env_with (''HUSQ_CLIENT_ID=abc'' @ [LF] @ ''HUSQ_REFRESH_TOKEN=old'' @ [LF])) ''.env'' =
     Text []"
  using persist_main_example by (simp add: interrupted_after_def)

text \<open>
  What \<open>_persist_refresh_token_to_env\<close> does in general: it creates an absent file with
  the entry alone; in a file that exists it replaces the first line that starts with the
  key and leaves every other line as it is, or appends the entry when no line does. And
  \<open>_persist_rotated_rt\<close> appends when the key occurs nowhere in the text.
\<close>

lemma replace_first_rt_None:
  "replace_first_rt e ls = None \<longleftrightarrow> (\<forall>l\<in>set ls. \<not> startswith (strip l) RT_KEY)"
  by (induction ls) auto

lemma replace_first_rt_Some:
  "replace_first_rt e ls = Some ls' \<Longrightarrow>
     \<exists>i<length ls. ls' = ls[i := e] \<and> startswith (strip (ls ! i)) RT_KEY
        \<and> (\<forall>j<i. \<not> startswith (strip (ls ! j)) RT_KEY)"
proof (induction ls arbitrary: ls')
  case Nil
  then show ?case by simp
next
  case (Cons l ls)
  show ?case
  proof (cases "startswith (strip l) RT_KEY")
    case True
    with Cons.prems have "ls' = e # ls" by simp
    with True show ?thesis by (intro exI[of _ 0]) simp
  next
    case False
    with Cons.prems obtain r where r: "replace_first_rt e ls = Some r" "ls' = l # r"
      by auto
    from Cons.IH[OF r(1)] obtain i where i: "i < length ls" "r = ls[i := e]"
      "startswith (strip (ls ! i)) RT_KEY" "\<forall>j<i. \<not> startswith (strip (ls ! j)) RT_KEY"
      by blast
    have "\<forall>j<Suc i. \<not> startswith (strip ((l # ls) ! j)) RT_KEY"
      using False i(4) by (auto simp: less_Suc_eq_0_disj)
    with i r(2) show ?thesis by (intro exI[of _ "Suc i"]) simp
  qed
qed

lemma persist_refresh_token_to_env_creates:
  "fs w env = Absent \<Longrightarrow>
     fs (persist_refresh_token_to_env rt env w) env = Text (RT_KEY @ rt @ [LF])"
  by (simp add: persist_refresh_token_to_env_def persist_refresh_token_to_env_writes_def
        do_fs_ops_def run_write_text)

lemma persist_refresh_token_to_env_rewrites:
  assumes "fs w env = Text raw"
  shows "\<exists>ls'. fs (persist_refresh_token_to_env rt env w) env = Text (join_LF ls' @ [LF])
     \<and> (((\<forall>l\<in>set (splitlines (universal_newlines raw)). \<not> startswith (strip l) RT_KEY)
           \<and> ls' = splitlines (universal_newlines raw) @ [RT_KEY @ rt])
         \<or> (\<exists>i<length (splitlines (universal_newlines raw)).
               ls' = (splitlines (universal_newlines raw))[i := RT_KEY @ rt]
               \<and> startswith (strip (splitlines (universal_newlines raw) ! i)) RT_KEY
               \<and> (\<forall>j<i. \<not> startswith (strip (splitlines (universal_newlines raw) ! j)) RT_KEY)))"
proof (cases "replace_first_rt (RT_KEY @ rt) (splitlines (universal_newlines raw))")
  case None
  then have "fs (persist_refresh_token_to_env rt env w) env =
      Text (join_LF (splitlines (universal_newlines raw) @ [RT_KEY @ rt]) @ [LF])"
    using assms
    by (simp add: persist_refresh_token_to_env_def persist_refresh_token_to_env_writes_def
          do_fs_ops_def run_write_text Let_def)
  with None show ?thesis by (auto simp: replace_first_rt_None)
next
  case (Some r)
  then have "fs (persist_refresh_token_to_env rt env w) env = Text (join_LF r @ [LF])"
    using assms
    by (simp add: persist_refresh_token_to_env_def persist_refresh_token_to_env_writes_def
          do_fs_ops_def run_write_text Let_def)
  with replace_first_rt_Some[OF Some] show ?thesis by blast
qed

lemma persist_rotated_rt_appends:
  assumes "fs w env = Text raw" "\<not> contains (universal_newlines raw) RT_KEY"
  shows "fs (persist_rotated_rt rt env w) env =
     Text ((if universal_newlines raw \<noteq> [] \<and> \<not> endswith_LF (universal_newlines raw)
            then universal_newlines raw @ [LF] else universal_newlines raw)
           @ RT_KEY @ rt @ [LF])"
  using assms
  by (simp add: persist_rotated_rt_def persist_rotated_rt_writes_def do_fs_ops_def
        run_write_text emit_def Let_def)

text \<open>
  C5. Persisting must leave the key's entry equal to the new value and append the entry
  when the key is absent. \<open>_persist_rotated_rt\<close> (amc\_action.py, automower\_ctl.py) decides
  whether the key is present with a substring test and then replaces only at the start of
  a line. On a file whose only line is a comment that mentions the key, the test holds, the
  pattern matches nothing, and the file is written back as it was: the new token is not in
  it. \<open>_persist_refresh_token_to_env\<close> (main.py), on the same file, appends the entry.
\<close>

theorem persist_rotated_rt_misses_key:
  "fs (persist_rotated_rt ''new'' ''.env''
         ((fresh_world [])\<lparr>fs := env_with (''# HUSQ_REFRESH_TOKEN=old'' @ [LF])\<rparr>)) ''.env'' =
     Text (''# HUSQ_REFRESH_TOKEN=old'' @ [LF])
   \<and> fs (persist_refresh_token_to_env ''new'' ''.env''
         ((fresh_world [])\<lparr>fs := env_with (''# HUSQ_REFRESH_TOKEN=old'' @ [LF])\<rparr>)) ''.env'' =
     Text (''# HUSQ_REFRESH_TOKEN=old'' @ [LF] @ ''HUSQ_REFRESH_TOKEN=new'' @ [LF])"
  by (simp add: persist_rotated_rt_def persist_rotated_rt_writes_def
        persist_refresh_token_to_env_def persist_refresh_token_to_env_writes_def
        env_with_def fresh_world_def splitlines_def linebreak_def RT_KEY_def strip_def
        isspace_def write_text_def re_sub_rt_def split_LF_def backslash_def
        do_fs_ops_def emit_def)

section \<open>Token exchange and rotation\<close>

lemma requests_emit [simp]: "requests (trace (emit e w)) = requests (trace w) @ request_of e"
  by (simp add: emit_def requests_def)

lemma requests_do_fs_ops [simp]: "requests (trace (do_fs_ops ops w)) = requests (trace w)"
  by (induction ops) (simp_all add: do_fs_ops_def requests_def)

lemma requests_persist_main [simp]:
  "requests (trace (persist_refresh_token_to_env rt env w)) = requests (trace w)"
  by (simp add: persist_refresh_token_to_env_def split: sum.splits)

lemma requests_persist_cli [simp]:
  "requests (trace (persist_rotated_rt rt env w)) = requests (trace w)"
  by (simp add: persist_rotated_rt_def split: sum.splits)

lemma send_requests:
  "requests (trace (snd (send rq w))) = requests (trace w) @ [rq]"
  by (simp add: send_def split: list.splits)

lemma async_cached:
  "truthy (access_token self) \<Longrightarrow> now w < expires_at self - 30 \<Longrightarrow>
     async_get_access_token self w = (Inr (access_token self), self, w)"
  by (simp add: async_get_access_token_def)

lemma async_exchange_requests:
  "\<not> truthy (access_token self) \<or> expires_at self - 30 \<le> now w \<Longrightarrow>
     requests (trace (snd (snd (async_get_access_token self w)))) =
       requests (trace w) @ [TokenPost (refresh_token self) (client_id self) (client_secret self)]"
proof -
  assume h: "\<not> truthy (access_token self) \<or> expires_at self - 30 \<le> now w"
  let ?rq = "TokenPost (refresh_token self) (client_id self) (client_secret self)"
  obtain r w1 where s: "send ?rq w = (r, w1)" by (cases "send ?rq w")
  with send_requests[of ?rq w] have rq: "requests (trace w1) = requests (trace w) @ [?rq]"
    by simp
  show ?thesis using h s rq
    by (auto simp: async_get_access_token_def Let_def
             split: reply.splits body.splits option.splits sum.splits)
qed

lemma async_exchanges:
  "exchanges (trace (snd (snd (async_get_access_token self w)))) =
     exchanges (trace w) +
       (if \<not> truthy (access_token self) \<or> expires_at self - 30 \<le> now w then 1 else 0)"
proof (cases "\<not> truthy (access_token self) \<or> expires_at self - 30 \<le> now w")
  case True
  from async_exchange_requests[OF True] True show ?thesis
    by (simp add: exchanges_def)
next
  case False
  then have "async_get_access_token self w = (Inr (access_token self), self, w)"
    by (intro async_cached) auto
  with False show ?thesis by simp
qed

lemma calls_cached:
  "truthy (access_token self) \<Longrightarrow> \<forall>t\<in>set ts. t < expires_at self - 30 \<Longrightarrow>
     fst (calls ts self w) = self \<and> trace (snd (calls ts self w)) = trace w"
proof (induction ts arbitrary: w)
  case Nil
  then show ?case by simp
next
  case (Cons t ts)
  have "async_get_access_token self (w\<lparr>now := t\<rparr>) =
          (Inr (access_token self), self, w\<lparr>now := t\<rparr>)"
    using Cons.prems by (intro async_cached) auto
  then have "calls (t # ts) self w = calls ts self (w\<lparr>now := t\<rparr>)"
    by simp
  with Cons.IH[of "w\<lparr>now := t\<rparr>"] Cons.prems show ?case by simp
qed


text \<open>
  C2. A call of \<open>async_get_access_token\<close> performs one exchange when no access token is
  cached (\<open>not self._access_token\<close>: none yet, or the empty string) or when
  \<open>now \<ge> expires_at - 30\<close>, and none otherwise.
  So a sequence of calls all made before \<open>expires_at - 30\<close> of a cached token performs no
  exchange and leaves the object as it is; a first call followed by calls that all fall
  within the validity window of the token it left performs at most one exchange; and a call
  made at \<open>now \<ge> expires_at - 30\<close> performs exactly one. A request that fails counts as an
  exchange performed.
\<close>

theorem exchange_when_stale:
  "exchanges (trace (snd (snd (async_get_access_token self w)))) =
     exchanges (trace w) +
       (if \<not> truthy (access_token self) \<or> expires_at self - 30 \<le> now w then 1 else 0)
   \<and> (truthy (access_token self) \<and> (\<forall>t\<in>set ts. t < expires_at self - 30) \<longrightarrow>
        exchanges (trace (snd (calls ts self w))) = exchanges (trace w)
        \<and> fst (calls ts self w) = self)
   \<and> (truthy (access_token (fst (snd (async_get_access_token self (w\<lparr>now := t0\<rparr>))))) \<and>
      (\<forall>t\<in>set ts.
          t < expires_at (fst (snd (async_get_access_token self (w\<lparr>now := t0\<rparr>)))) - 30) \<longrightarrow>
        exchanges (trace (snd (calls (t0 # ts) self w))) \<le> exchanges (trace w) + 1)
   \<and> (expires_at self - 30 \<le> now w \<longrightarrow>
        exchanges (trace (snd (snd (async_get_access_token self w)))) =
          exchanges (trace w) + 1)"
proof -
  have B: "truthy (access_token self) \<and> (\<forall>t\<in>set ts. t < expires_at self - 30) \<longrightarrow>
        exchanges (trace (snd (calls ts self w))) = exchanges (trace w)
        \<and> fst (calls ts self w) = self"
    using calls_cached[of self ts w] by auto
  have C: "truthy (access_token (fst (snd (async_get_access_token self (w\<lparr>now := t0\<rparr>))))) \<and>
      (\<forall>t\<in>set ts.
          t < expires_at (fst (snd (async_get_access_token self (w\<lparr>now := t0\<rparr>)))) - 30) \<longrightarrow>
        exchanges (trace (snd (calls (t0 # ts) self w))) \<le> exchanges (trace w) + 1"
  proof
    obtain r self1 w1 where c: "async_get_access_token self (w\<lparr>now := t0\<rparr>) = (r, self1, w1)"
      by (cases "async_get_access_token self (w\<lparr>now := t0\<rparr>)")
    assume "truthy (access_token (fst (snd (async_get_access_token self (w\<lparr>now := t0\<rparr>))))) \<and>
      (\<forall>t\<in>set ts.
          t < expires_at (fst (snd (async_get_access_token self (w\<lparr>now := t0\<rparr>)))) - 30)"
    with c have h: "truthy (access_token self1)" "\<forall>t\<in>set ts. t < expires_at self1 - 30"
      by auto
    from calls_cached[OF h, of w1] c
    have "trace (snd (calls (t0 # ts) self w)) = trace w1" by simp
    moreover have "exchanges (trace w1) \<le> exchanges (trace w) + 1"
      using async_exchanges[of self "w\<lparr>now := t0\<rparr>"] c by simp
    ultimately show "exchanges (trace (snd (calls (t0 # ts) self w))) \<le> exchanges (trace w) + 1"
      by simp
  qed
  have D: "expires_at self - 30 \<le> now w \<longrightarrow>
        exchanges (trace (snd (snd (async_get_access_token self w)))) =
          exchanges (trace w) + 1"
    using async_exchanges[of self w] by simp
  show ?thesis using async_exchanges[of self w] B C D by blast
qed

lemmas eval_defs = async_get_access_token_def send_def emit_def fresh_world_def StaticAuth_def
  token_reply_def exchanges_def requests_def Let_def

theorem exchange_when_stale_witness:
  "exchanges (trace (snd (calls [1000, 2000, 4000]
       (StaticAuth ''id'' ''secret'' ''key'' ''rt0'')
       (fresh_world [token_reply ''acc'' Missing (Val 3600),
                     token_reply ''acc2'' Missing (Val 3600)])))) = 1
   \<and> exchanges (trace (snd (calls [1000, 2000, 4000, 4570]
       (StaticAuth ''id'' ''secret'' ''key'' ''rt0'')
       (fresh_world [token_reply ''acc'' Missing (Val 3600),
                     token_reply ''acc2'' Missing (Val 3600)])))) = 2"
  using exchange_when_stale
    [where self = "StaticAuth ''id'' ''secret'' ''key'' ''rt0''"
       and w = "fresh_world [token_reply ''acc'' Missing (Val 3600),
                             token_reply ''acc2'' Missing (Val 3600)]"
       and ?t0.0 = 1000 and ts = "[2000, 4000]"]
  by (simp add: eval_defs)

lemma fs_emit [simp]: "fs (emit e w) = fs w"
  by (simp add: emit_def)

lemma fs_writes_emit [simp]: "fs_writes (trace (emit e w)) = fs_writes (trace w) @ write_of e"
  by (simp add: emit_def fs_writes_def)
























section \<open>The polling loop\<close>

lemma sleeps_emit [simp]: "sleeps (trace (emit e w)) = sleeps (trace w) @ sleep_of e"
  by (simp add: emit_def sleeps_def)

lemma replies_emit [simp]: "replies (emit e w) = replies w"
  by (simp add: emit_def)

lemma sleeps_do_fs_ops [simp]: "sleeps (trace (do_fs_ops ops w)) = sleeps (trace w)"
  by (induction ops) (simp_all add: do_fs_ops_def sleeps_def)

lemma replies_do_fs_ops [simp]: "replies (do_fs_ops ops w) = replies w"
  by (simp add: do_fs_ops_def)

lemma sleeps_persist_main [simp]:
  "sleeps (trace (persist_refresh_token_to_env rt env w)) = sleeps (trace w)"
  by (simp add: persist_refresh_token_to_env_def split: sum.splits)

lemma replies_persist_main [simp]:
  "replies (persist_refresh_token_to_env rt env w) = replies w"
  by (simp add: persist_refresh_token_to_env_def split: sum.splits)

lemma send_frame:
  assumes "send rq w = (r, w1)"
  shows "sleeps (trace w1) = sleeps (trace w)"
    and "set (replies w1) \<subseteq> set (replies w)"
    and "r = Interrupted \<Longrightarrow> Interrupted \<in> set (replies w)"
  using assms by (auto simp: send_def split: list.splits)

lemma json_index_Exception: "json_index k f = Inl e \<Longrightarrow> is_Exception e"
  by (cases f) auto

lemma int_or_300_Exception: "int_or_300 f = Inl e \<Longrightarrow> is_Exception e"
  by (cases f) auto

lemma async_frame:
  assumes "async_get_access_token self w = (res, self1, w1)"
  shows "sleeps (trace w1) = sleeps (trace w)"
    and "set (replies w1) \<subseteq> set (replies w)"
    and "Interrupted \<notin> set (replies w) \<Longrightarrow> res = Inl e \<Longrightarrow> is_Exception e"
proof -
  let ?rq = "TokenPost (refresh_token self) (client_id self) (client_secret self)"
  obtain r w0 where s: "send ?rq w = (r, w0)" by (cases "send ?rq w")
  note f = send_frame[OF s]
  show "sleeps (trace w1) = sleeps (trace w)"
    using assms s f(1)
    by (auto simp: async_get_access_token_def Let_def
             split: if_splits reply.splits body.splits option.splits sum.splits)
  show "set (replies w1) \<subseteq> set (replies w)"
    using assms s f(2)
    by (auto simp: async_get_access_token_def Let_def
             split: if_splits reply.splits body.splits option.splits sum.splits)
  show "Interrupted \<notin> set (replies w) \<Longrightarrow> res = Inl e \<Longrightarrow> is_Exception e"
    using assms s f(3)
    by (auto simp: async_get_access_token_def Let_def
             dest: json_index_Exception int_or_300_Exception
             split: if_splits reply.splits body.splits option.splits sum.splits)
qed

lemma fetch_frame:
  assumes "fetch_mowers auth akey w = (res, auth1, w1)"
  shows "sleeps (trace w1) = sleeps (trace w)"
    and "set (replies w1) \<subseteq> set (replies w)"
    and "Interrupted \<notin> set (replies w) \<Longrightarrow> res = Inl e \<Longrightarrow> is_Exception e"
proof -
  obtain r0 a0 w0 where a: "async_get_access_token auth w = (r0, a0, w0)"
    by (cases "async_get_access_token auth w")
  note fa = async_frame[OF a]
  show "sleeps (trace w1) = sleeps (trace w)"
  proof (cases r0)
    case (Inl x)
    with assms a fa(1) show ?thesis by (simp add: fetch_mowers_def)
  next
    case (Inr tok)
    obtain r w2 where s: "send (MowersGet tok akey) w0 = (r, w2)"
      by (cases "send (MowersGet tok akey) w0")
    from send_frame(1)[OF s] fa(1) assms a Inr s show ?thesis
      by (auto simp: fetch_mowers_def Let_def split: reply.splits body.splits if_splits)
  qed
  show "set (replies w1) \<subseteq> set (replies w)"
  proof (cases r0)
    case (Inl x)
    with assms a fa(2) show ?thesis by (simp add: fetch_mowers_def)
  next
    case (Inr tok)
    obtain r w2 where s: "send (MowersGet tok akey) w0 = (r, w2)"
      by (cases "send (MowersGet tok akey) w0")
    from send_frame(2)[OF s] fa(2) assms a Inr s show ?thesis
      by (auto simp: fetch_mowers_def Let_def split: reply.splits body.splits if_splits)
  qed
  show "Interrupted \<notin> set (replies w) \<Longrightarrow> res = Inl e \<Longrightarrow> is_Exception e"
  proof (cases r0)
    case (Inl x)
    assume "Interrupted \<notin> set (replies w)" "res = Inl e"
    with assms a fa(3)[of x] Inl show ?thesis by (simp add: fetch_mowers_def)
  next
    case (Inr tok)
    assume h: "Interrupted \<notin> set (replies w)" "res = Inl e"
    obtain r w2 where s: "send (MowersGet tok akey) w0 = (r, w2)"
      by (cases "send (MowersGet tok akey) w0")
    from send_frame(3)[OF s] fa(2) h assms a Inr s show ?thesis
      by (auto simp: fetch_mowers_def Let_def split: reply.splits body.splits if_splits)
  qed
qed


lemma influx_write_frame [simp]:
  "sleeps (trace (snd (influx_write influx mid name flds ts w))) = sleeps (trace w)"
  "replies (snd (influx_write influx mid name flds ts w)) = replies w"
  "fst (influx_write influx mid name flds ts w) = Inl e \<Longrightarrow> is_Exception e"
  by (auto simp: influx_write_def Let_def add_fields_present split: if_splits)

lemma report_item_frame:
  assumes "report_item influx ts item w = (res, w1)"
  shows "sleeps (trace w1) = sleeps (trace w)"
    and "replies w1 = replies w"
    and "res = Inl e \<Longrightarrow> is_Exception e"
proof -
  let ?w2 = "emit (Log DEBUG ''Raw mower item: %r'')
               (emit (Log INFO (''name='' @ str_opt (name_or_id item))) w)"
  let ?iw = "influx_write influx
               (if truthy (m_id item) then str_opt (m_id item) else ''unknown'')
               (name_or_id item) (item_fields item) ts ?w2"
  have eq: "report_item influx ts item w = ?iw"
    by (simp add: report_item_def Let_def)
  with assms have r: "fst ?iw = res" "snd ?iw = w1" by simp_all
  show "sleeps (trace w1) = sleeps (trace w)"
    unfolding r(2)[symmetric] by simp
  show "replies w1 = replies w"
    unfolding r(2)[symmetric] by simp
  show "res = Inl e \<Longrightarrow> is_Exception e"
    unfolding r(1)[symmetric] by (rule influx_write_frame(3))
qed

lemma report_items_frame:
  "report_items influx ts items w = (res, w1) \<Longrightarrow>
     sleeps (trace w1) = sleeps (trace w) \<and> replies w1 = replies w
     \<and> (\<forall>e. res = Inl e \<longrightarrow> is_Exception e)"
proof (induction items arbitrary: w)
  case Nil
  then show ?case by auto
next
  case (Cons item items)
  obtain r0 w0 where r: "report_item influx ts item w = (r0, w0)"
    by (cases "report_item influx ts item w")
  note f = report_item_frame[OF r]
  show ?case
  proof (cases r0)
    case (Inl x)
    with Cons.prems r have "res = Inl x" "w1 = w0" by simp_all
    with f(1,2) f(3)[OF Inl] show ?thesis by simp
  next
    case (Inr u)
    with Cons.prems r have "report_items influx ts items w0 = (res, w1)" by simp
    from Cons.IH[OF this] f(1,2) show ?thesis by simp
  qed
qed

lemma run_once_frame:
  assumes "run_once cfg influx auth w = (res, auth1, w1)"
  shows "sleeps (trace w1) = sleeps (trace w)"
    and "set (replies w1) \<subseteq> set (replies w)"
    and "Interrupted \<notin> set (replies w) \<Longrightarrow> res = Inl e \<Longrightarrow> is_Exception e"
proof -
  obtain r0 a0 w0 where f: "fetch_mowers auth (mc_api_key cfg) w = (r0, a0, w0)"
    by (cases "fetch_mowers auth (mc_api_key cfg) w")
  note ff = fetch_frame[OF f]
  define data where "data = (case r0 of Inr (Some xs) \<Rightarrow> xs | _ \<Rightarrow> [])"
  obtain r2 w2 where ri: "report_items influx (now w0) data w0 = (r2, w2)"
    by (cases "report_items influx (now w0) data w0")
  note fr = report_items_frame[OF ri]
  show "sleeps (trace w1) = sleeps (trace w)"
    using assms f ff(1) ri fr
    by (auto simp: run_once_def Let_def data_def split: if_splits sum.splits option.splits)
  show "set (replies w1) \<subseteq> set (replies w)"
    using assms f ff(2) ri fr
    by (auto simp: run_once_def Let_def data_def split: if_splits sum.splits option.splits)
  show "Interrupted \<notin> set (replies w) \<Longrightarrow> res = Inl e \<Longrightarrow> is_Exception e"
    using assms f ff(3)[of e] ri fr
    by (auto simp: run_once_def Let_def data_def split: if_splits sum.splits option.splits)
qed

lemma sleep_frame [simp]:
  "sleeps (trace (sleep d w)) = sleeps (trace w) @ [d]"
  "replies (sleep d w) = replies w"
  by (simp_all add: sleep_def emit_def sleeps_def)

lemma run_loop_running:
  "Interrupted \<notin> set (replies w) \<Longrightarrow>
     fst (run_loop n cfg influx auth w) = Running
     \<and> sleeps (trace (snd (snd (run_loop n cfg influx auth w)))) =
         sleeps (trace w) @ replicate n (max 1 (poll_seconds cfg))"
proof (induction n arbitrary: auth w)
  case 0
  then show ?case by simp
next
  case (Suc n)
  let ?d = "max 1 (poll_seconds cfg)"
  obtain res auth1 w1 where r: "run_once cfg influx auth w = (res, auth1, w1)"
    by (cases "run_once cfg influx auth w")
  note fr = run_once_frame[OF r]
  have ni: "Interrupted \<notin> set (replies w1)"
    using fr(2) Suc.prems by blast
  show ?case
  proof (cases res)
    case (Inr rc)
    have step: "run_loop (Suc n) cfg influx auth w = run_loop n cfg influx auth1 (sleep ?d w1)"
      using r Inr by simp
    have "Interrupted \<notin> set (replies (sleep ?d w1))" using ni by simp
    from Suc.IH[OF this, of auth1] step fr(1) show ?thesis
      by (simp add: replicate_app_Cons_same)
  next
    case (Inl e)
    have ex: "is_Exception e" using fr(3)[OF Suc.prems Inl] .
    let ?w2 = "sleep ?d (emit (Log ERROR ''Polling error: %s'') w1)"
    have step: "run_loop (Suc n) cfg influx auth w = run_loop n cfg influx auth1 ?w2"
      using r Inl ex by simp
    have "Interrupted \<notin> set (replies ?w2)" using ni by simp
    from Suc.IH[OF this, of auth1] step fr(1) show ?thesis
      by (simp add: replicate_app_Cons_same)
  qed
qed

text \<open>
  C9. An iteration of \<open>run_loop\<close> that raises an \<open>Exception\<close> (a failed connection, an
  HTTP error status, a payload that is not the expected JSON) is logged and followed by
  the sleep and the next iteration, exactly as one that returns: every iteration is
  followed by a sleep of \<open>max(1, poll_seconds)\<close> seconds, which is at least 1. So as long as
  no interrupt arrives, after any number \<open>n\<close> of iterations the loop is still running and
  has slept \<open>n\<close> times, each time for \<open>max(1, poll_seconds)\<close> seconds.
\<close>

theorem polling_loop_continues:
  "(Interrupted \<notin> set (replies w) \<longrightarrow>
      fst (run_loop n cfg influx auth w) = Running
      \<and> sleeps (trace (snd (snd (run_loop n cfg influx auth w)))) =
          sleeps (trace w) @ replicate n (max 1 (poll_seconds cfg)))
   \<and> 1 \<le> max 1 (poll_seconds cfg)
   \<and> (\<forall>e auth1 w1. run_once cfg influx auth w = (Inl e, auth1, w1) \<and> is_Exception e \<longrightarrow>
        run_loop (Suc n) cfg influx auth w =
          run_loop n cfg influx auth1
            (sleep (max 1 (poll_seconds cfg)) (emit (Log ERROR ''Polling error: %s'') w1)))
   \<and> (\<forall>rc auth1 w1. run_once cfg influx auth w = (Inr rc, auth1, w1) \<longrightarrow>
        run_loop (Suc n) cfg influx auth w =
          run_loop n cfg influx auth1 (sleep (max 1 (poll_seconds cfg)) w1))"
  using run_loop_running[of w n cfg influx auth] by simp

theorem polling_loop_continues_witness:
  "fst (run_loop 2 (sample_config 0) \<lparr>enabled = False, iw_cfg = sample_config 0\<rparr>
          (StaticAuth ''id'' ''secret'' ''key'' ''rt0'')
          (fresh_world [Http 500 ''boom'' OtherBody, token_reply ''acc'' Missing Missing,
                        Http 200 [] (MowersBody (Some [empty_item]))])) = Running
   \<and> sleeps (trace (snd (snd (run_loop 2 (sample_config 0)
          \<lparr>enabled = False, iw_cfg = sample_config 0\<rparr>
          (StaticAuth ''id'' ''secret'' ''key'' ''rt0'')
          (fresh_world [Http 500 ''boom'' OtherBody, token_reply ''acc'' Missing Missing,
                        Http 200 [] (MowersBody (Some [empty_item]))]))))) = [1, 1]"
  using polling_loop_continues
    [where n = 2 and cfg = "sample_config 0"
       and influx = "\<lparr>enabled = False, iw_cfg = sample_config 0\<rparr>"
       and auth = "StaticAuth ''id'' ''secret'' ''key'' ''rt0''"
       and w = "fresh_world [Http 500 ''boom'' OtherBody, token_reply ''acc'' Missing Missing,
                             Http 200 [] (MowersBody (Some [empty_item]))]"]
  by (simp add: fresh_world_def token_reply_def sample_config_def sleeps_def
        numeral_2_eq_2 del: run_loop.simps)

end
